theory Spec2Isabelle
  imports Main "HOL-Library.Word" "HOL-Library.Multiset"
begin

section \<open>JavaScript values\<close>

text \<open>
  A JavaScript string is a sequence of UTF-16 code units; \<open>length\<close>, \<open>slice\<close>,
  \<open>substring\<close> and \<open>startsWith\<close> count code units, so a string is modelled as the list
  of its code units. The literals of the source are ASCII and are written with \<open>str\<close>.
  A MongoDB ObjectId is represented by its canonical 24-digit hexadecimal string, so
  that \<open>_id.toString()\<close> is the identity.
\<close>

type_synonym jstring = "nat list"
type_synonym bytes = "8 word list"
type_synonym objectId = jstring

definition str :: "string \<Rightarrow> jstring" where
  "str s = map of_char s"

text \<open>
  The code units that \<open>String.prototype.trim\<close> removes: the WhiteSpace and
  LineTerminator productions of ECMAScript.
\<close>

definition is_ws :: "nat \<Rightarrow> bool" where
  "is_ws c = (c \<in> set [9, 10, 11, 12, 13, 32, 160, 5760, 8232, 8233, 8239, 8287, 12288, 65279]
              \<or> (8192 \<le> c \<and> c \<le> 8202))"

definition trim :: "jstring \<Rightarrow> jstring" where
  "trim s = rev (dropWhile is_ws (rev (dropWhile is_ws s)))"

text \<open>\<open>s.startsWith(p)\<close>.\<close>

definition startsWith :: "jstring \<Rightarrow> jstring \<Rightarrow> bool" where
  "startsWith s p = (take (length p) s = p)"

text \<open>
  \<open>s.slice(a, -k)\<close> for constants \<open>a\<close> and \<open>k\<close>: the code units from index \<open>a\<close> up to, not
  including, index \<open>max (length s - k) 0\<close>; empty when that end is not beyond \<open>a\<close>.
\<close>

definition slice_from_to_end_minus :: "nat \<Rightarrow> nat \<Rightarrow> jstring \<Rightarrow> jstring" where
  "slice_from_to_end_minus a k s = take ((length s - k) - a) (drop a s)"

text \<open>\<open>s.substring(0, n)\<close>.\<close>

definition substring0 :: "nat \<Rightarrow> jstring \<Rightarrow> jstring" where
  "substring0 n s = take n s"

text \<open>
  The values that \<open>JSON.parse\<close> produces, and \<open>undefined\<close> for a property that is
  absent. No controller inspects a number, so the carrier of \<open>JNum\<close> is immaterial.
  The list of a \<open>JObj\<close> holds the own properties of the object.
\<close>

datatype jsval =
    JUndefined
  | JNull
  | JBool bool
  | JNum int
  | JStr jstring
  | JArr "jsval list"
  | JObj "(jstring \<times> jsval) list"

text \<open>What a controller can throw; every one of them ends in a \<open>catch\<close> block.\<close>

datatype exn =
    TypeError
  | CastError
  | ValidationError
  | DuplicateKey
  | BucketNotInitialized
  | PdfParseError
  | LlmError
  | InvalidHeaderChar

text \<open>
  Reading a property \<open>v.key\<close> where \<open>key\<close> is one of \<open>answers\<close>, \<open>questionId\<close>,
  \<open>answer\<close>: a TypeError on \<open>undefined\<close> and \<open>null\<close>, the own property of an object,
  and \<open>undefined\<close> on every other value (no prototype of a boolean, number, string or
  array defines one of these names).
\<close>

fun js_prop :: "jsval \<Rightarrow> jstring \<Rightarrow> exn + jsval" where
  "js_prop JUndefined key = Inl TypeError"
| "js_prop JNull key = Inl TypeError"
| "js_prop (JObj fields) key =
     (case map_of fields key of None \<Rightarrow> Inr JUndefined | Some v \<Rightarrow> Inr v)"
| "js_prop v key = Inr JUndefined"

section \<open>Data model\<close>

text \<open>\<open>questionSchema\<close> and \<open>quizSchema\<close> of \<open>models/quizModel.js\<close>.\<close>

record question =
  q_id :: objectId
  questionText :: jstring
  options :: "jstring list"
  correctAnswer :: jstring

text \<open>
  The local variable \<open>sourceType\<close> of the generating controller starts as the empty
  string (\<open>SrcUnset\<close>), which the schema's enum does not admit.
\<close>

datatype source_type = SrcUnset | SrcText | SrcPdf | SrcCombined

record quiz =
  quiz_id :: objectId
  title :: jstring
  topic :: jstring
  sourceType :: source_type
  sourceFilename :: "jstring option"
  sourceFileId :: "objectId option"
  questions :: "question list"

text \<open>
  One entry of \<open>submittedAnswers\<close> (\<open>resultSchema\<close>). The controller builds the entry
  with the submitted answer as the request gave it (\<open>'a = jsval\<close>); the stored document
  holds it cast to a string, or unset (\<open>'a = jstring option\<close>). \<open>isCorrect\<close> is
  \<open>None\<close> where the JavaScript value is \<open>undefined\<close>.
\<close>

record 'a answer_detail =
  questionId :: objectId
  d_questionText :: jstring
  submittedAnswer :: 'a
  d_correctAnswer :: jstring
  isCorrect :: "bool option"

record result_doc =
  r_id :: objectId
  r_quiz :: objectId
  score :: nat
  totalQuestions :: nat
  submittedAnswers :: "jstring option answer_detail list"
  createdAt :: nat

text \<open>A file of the GridFS bucket \<open>uploads\<close>.\<close>

record stored_file =
  file_id :: objectId
  filename :: jstring
  contentType :: jstring
  content :: bytes

text \<open>
  The persistent state: the two collections, the files of the bucket, and whether the
  module variable \<open>bucket\<close> of \<open>config/db.js\<close> has been set by \<open>connectDB\<close>.
\<close>

record store =
  bucketInitialized :: bool
  files :: "stored_file list"
  quizzes :: "quiz list"
  results :: "result_doc list"

section \<open>External collaborators\<close>

text \<open>
  The libraries and services the controllers call, as parameters of the model:
  \<^item> \<open>pdf\<close>: \<open>pdf-parse\<close> on the uploaded buffer, the extracted text (\<open>None\<close>: it throws);
  \<^item> \<open>llm\<close>: the chain call with the context and the number of questions, the text of
    the answer (\<open>None\<close>: it throws);
  \<^item> \<open>json_parse\<close>: \<open>JSON.parse\<close> (\<open>None\<close>: a SyntaxError);
  \<^item> \<open>castQuestions\<close>: Mongoose casting the parsed array to question subdocuments,
    each with a generated \<open>_id\<close> (\<open>None\<close>: a CastError); a string field that is absent
    is cast to the empty string, which \<open>required\<close> rejects alike;
  \<^item> \<open>castString\<close>: Mongoose casting a value that is neither a string nor nullish to
    a String path (\<open>None\<close>: a CastError);
  \<^item> \<open>castObjectId\<close>: Mongoose casting a route parameter to an ObjectId (\<open>None\<close>: a
    CastError of kind \<open>ObjectId\<close>);
  \<^item> \<open>encodeURIComponent\<close>, total on the well-formed strings that form decoding yields.
  Generated identifiers and the clock are arguments of the controllers. Database
  operations succeed unless the stored data says otherwise (a missing or duplicate key).
\<close>

record env =
  pdf :: "bytes \<Rightarrow> jstring option"
  llm :: "jstring \<Rightarrow> jstring \<Rightarrow> jstring option"
  json_parse :: "jstring \<Rightarrow> jsval option"
  castQuestions :: "jsval list \<Rightarrow> question list option"
  castString :: "jsval \<Rightarrow> jstring option"
  castObjectId :: "jstring \<Rightarrow> objectId option"
  encodeURIComponent :: "jstring \<Rightarrow> jstring"

text \<open>
  A response: \<open>res.status(n).json({message})\<close>, or a status with the payload of the
  success case.
\<close>

datatype 'a response = Message nat string | Payload nat 'a

text \<open>The calls a request makes to the outside, in order.\<close>

datatype event =
    GridFsUpload objectId
  | PdfParse
  | LlmCall jstring jstring
  | QuizSave

section \<open>generateQuizController\<close>

text \<open>
  The multipart request: the text fields of \<open>req.body\<close>, each a string (\<open>None\<close>: the
  field is absent), and \<open>req.file\<close> as multer's memory storage provides it. A form
  field is text; a field name that is repeated or carries brackets, which the form
  parser would turn into an array or an object, is not part of the model.
\<close>

record upload =
  originalname :: jstring
  mimetype :: jstring
  buffer :: bytes

record generate_request =
  body_title :: "jstring option"
  body_numQuestions :: "jstring option"
  body_topic :: "jstring option"
  req_file :: "upload option"

text \<open>\<open>!v\<close> for a value that is \<open>undefined\<close> or a string.\<close>

definition falsy :: "jstring option \<Rightarrow> bool" where
  "falsy v = (case v of None \<Rightarrow> True | Some s \<Rightarrow> s = [])"

text \<open>\<open>!topic || topic.trim().length === 0\<close>\<close>

definition topicBlank :: "jstring option \<Rightarrow> bool" where
  "topicBlank t = (case t of None \<Rightarrow> True | Some s \<Rightarrow> s = [] \<or> length (trim s) = 0)"

text \<open>\<open>topic && topic.trim().length > 0\<close>\<close>

definition topicGiven :: "jstring option \<Rightarrow> bool" where
  "topicGiven t = (case t of None \<Rightarrow> False | Some s \<Rightarrow> s \<noteq> [] \<and> length (trim s) > 0)"

text \<open>The four locals \<open>contextText\<close>, \<open>sourceType\<close>, \<open>sourceFilename\<close>, \<open>sourceFileId\<close>.\<close>

record gen_context =
  contextText :: jstring
  ctx_sourceType :: source_type
  ctx_sourceFilename :: "jstring option"
  ctx_sourceFileId :: "objectId option"

text \<open>Lines 195 to 203: the locals after the topic has been looked at.\<close>

definition topicContext :: "generate_request \<Rightarrow> gen_context" where
  "topicContext req =
     (case body_topic req of
        Some t \<Rightarrow>
          if topicGiven (Some t)
          then \<lparr>contextText = str ''Topic provided by user:'' @ [10] @ t,
                ctx_sourceType = SrcText, ctx_sourceFilename = None, ctx_sourceFileId = None\<rparr>
          else \<lparr>contextText = [], ctx_sourceType = SrcUnset,
                ctx_sourceFilename = None, ctx_sourceFileId = None\<rparr>
      | None \<Rightarrow>
          \<lparr>contextText = [], ctx_sourceType = SrcUnset,
           ctx_sourceFilename = None, ctx_sourceFileId = None\<rparr>)"

text \<open>\<open>getBucket\<close> of \<open>config/db.js\<close>.\<close>

definition getBucket :: "store \<Rightarrow> exn + unit" where
  "getBucket st = (if \<not> bucketInitialized st then Inl BucketNotInitialized else Inr ())"

text \<open>
  Lines 208 to 218: the buffer is piped into an upload stream under a generated id; the
  promise rejects when the stream reports an error (here: the id is already taken).
\<close>

definition uploadToGridFs :: "store \<Rightarrow> objectId \<Rightarrow> upload \<Rightarrow> exn + store" where
  "uploadToGridFs st fileId f =
     (if fileId \<in> set (map file_id (files st)) then Inl DuplicateKey
      else Inr (st\<lparr>files := files st @
        [\<lparr>file_id = fileId, filename = originalname f,
          contentType = mimetype f, content = buffer f\<rparr>]\<rparr>))"

text \<open>Lines 220 to 230: the locals after the file has been stored and parsed.\<close>

definition pdfSeparator :: "jstring \<Rightarrow> jstring" where
  "pdfSeparator name =
     [10, 10] @ str ''--- Content from uploaded PDF ('' @ name @ str '') ---'' @ [10]"

definition withPdf :: "gen_context \<Rightarrow> objectId \<Rightarrow> upload \<Rightarrow> jstring \<Rightarrow> gen_context" where
  "withPdf c fileId f text =
     \<lparr>contextText =
        (if text \<noteq> []
         then contextText c
              @ (if length (contextText c) > 0 then pdfSeparator (originalname f) else [])
              @ text
         else contextText c),
      ctx_sourceType = (if ctx_sourceType c = SrcText then SrcCombined else SrcPdf),
      ctx_sourceFilename = Some (originalname f),
      ctx_sourceFileId = Some fileId\<rparr>"

text \<open>Lines 195 to 231 together, with the state and the calls made.\<close>

definition gatherContext ::
  "env \<Rightarrow> store \<Rightarrow> generate_request \<Rightarrow> objectId \<Rightarrow> (exn + gen_context) \<times> store \<times> event list" where
  "gatherContext env st req fileId =
     (case req_file req of
        None \<Rightarrow> (Inr (topicContext req), st, [])
      | Some f \<Rightarrow>
          (case getBucket st of
             Inl e \<Rightarrow> (Inl e, st, [])
           | Inr _ \<Rightarrow>
               (case uploadToGridFs st fileId f of
                  Inl e \<Rightarrow> (Inl e, st, [GridFsUpload fileId])
                | Inr st1 \<Rightarrow>
                    (case pdf env (buffer f) of
                       None \<Rightarrow> (Inl PdfParseError, st1, [GridFsUpload fileId, PdfParse])
                     | Some text \<Rightarrow>
                         (Inr (withPdf (topicContext req) fileId f text), st1,
                          [GridFsUpload fileId, PdfParse])))))"

text \<open>Lines 267 to 272.\<close>

definition cleanedText :: "jstring \<Rightarrow> jstring" where
  "cleanedText raw =
     (let t = trim raw in
      if startsWith t (str ''```json'') then slice_from_to_end_minus 7 3 t
      else if startsWith t (str ''```'') then slice_from_to_end_minus 3 3 t
      else t)"

text \<open>
  Lines 266 to 281: \<open>None\<close> when \<open>JSON.parse\<close> throws or the value is not a non-empty
  array; both end in the inner \<open>catch\<close>.
\<close>

definition parseQuestions :: "env \<Rightarrow> jstring \<Rightarrow> jsval list option" where
  "parseQuestions env raw =
     (case json_parse env (cleanedText raw) of
        Some (JArr (x # xs)) \<Rightarrow> Some (x # xs)
      | _ \<Rightarrow> None)"

text \<open>The validators of \<open>questionSchema\<close> and \<open>quizSchema\<close>.\<close>

definition validQuestion :: "question \<Rightarrow> bool" where
  "validQuestion q =
     (questionText q \<noteq> [] \<and> length (options q) > 1 \<and> correctAnswer q \<noteq> [])"

definition validQuiz :: "quiz \<Rightarrow> bool" where
  "validQuiz q =
     (title q \<noteq> [] \<and> topic q \<noteq> [] \<and> sourceType q \<noteq> SrcUnset
      \<and> list_all validQuestion (questions q))"

text \<open>
  Lines 287 to 294: the document. \<open>topic || `Content from ${sourceFilename}`\<close>; the
  schema trims the title.
\<close>

definition quizTopic :: "generate_request \<Rightarrow> gen_context \<Rightarrow> jstring" where
  "quizTopic req c =
     (case body_topic req of
        Some t \<Rightarrow> if t \<noteq> [] then t
                  else str ''Content from '' @
                    (case ctx_sourceFilename c of None \<Rightarrow> str ''null'' | Some n \<Rightarrow> n)
      | None \<Rightarrow> str ''Content from '' @
                    (case ctx_sourceFilename c of None \<Rightarrow> str ''null'' | Some n \<Rightarrow> n))"

definition newQuiz ::
  "env \<Rightarrow> objectId \<Rightarrow> generate_request \<Rightarrow> gen_context \<Rightarrow> jsval list \<Rightarrow> exn + quiz" where
  "newQuiz env quizId req c parsed =
     (case castQuestions env parsed of
        None \<Rightarrow> Inl CastError
      | Some qs \<Rightarrow>
          Inr \<lparr>quiz_id = quizId,
               title = (case body_title req of None \<Rightarrow> [] | Some t \<Rightarrow> trim t),
               topic = quizTopic req c,
               sourceType = ctx_sourceType c,
               sourceFilename = ctx_sourceFilename c,
               sourceFileId = ctx_sourceFileId c,
               questions = qs\<rparr>)"

text \<open>\<open>newQuiz.save()\<close>: validation, then the insert under a unique \<open>_id\<close>.\<close>

definition saveQuiz :: "store \<Rightarrow> quiz \<Rightarrow> exn + store" where
  "saveQuiz st q =
     (if \<not> validQuiz q then Inl ValidationError
      else if quiz_id q \<in> set (map quiz_id (quizzes st)) then Inl DuplicateKey
      else Inr (st\<lparr>quizzes := quizzes st @ [q]\<rparr>))"

record generate_payload =
  gp_message :: string
  gp_quizId :: objectId
  gp_data :: quiz

definition generateServerError :: "generate_payload response" where
  "generateServerError =
     Message 500 ''An error occurred on the server while generating the quiz.''"

text \<open>\<open>numQuestions = 5\<close> by default, as the prompt template prints it.\<close>

definition numQuestionsOf :: "generate_request \<Rightarrow> jstring" where
  "numQuestionsOf req = (case body_numQuestions req of None \<Rightarrow> str ''5'' | Some n \<Rightarrow> n)"

text \<open>Lines 286 to 302, after the questions have been parsed.\<close>

definition persistQuiz ::
  "env \<Rightarrow> store \<Rightarrow> generate_request \<Rightarrow> objectId \<Rightarrow> gen_context \<Rightarrow> jsval list
   \<Rightarrow> generate_payload response \<times> store" where
  "persistQuiz env st req quizId c parsed =
     (case newQuiz env quizId req c parsed of
        Inl e \<Rightarrow> (generateServerError, st)
      | Inr q \<Rightarrow>
          (case saveQuiz st q of
             Inl e \<Rightarrow> (generateServerError, st)
           | Inr st' \<Rightarrow>
               (Payload 201 \<lparr>gp_message = ''Quiz generated and saved successfully!'',
                             gp_quizId = quiz_id q, gp_data = q\<rparr>, st')))"

text \<open>Lines 233 to 302, after the context has been gathered.\<close>

definition generateFromContext ::
  "env \<Rightarrow> store \<Rightarrow> generate_request \<Rightarrow> objectId \<Rightarrow> gen_context \<Rightarrow> event list
   \<Rightarrow> generate_payload response \<times> store \<times> event list" where
  "generateFromContext env st req quizId c ev =
     (if length (trim (contextText c)) < 50
      then (Message 400
              ''Could not find sufficient text from the provided sources to generate a quiz.'',
            st, ev)
      else
        (let truncatedContext = substring0 24000 (contextText c);
             ev1 = ev @ [LlmCall truncatedContext (numQuestionsOf req)] in
         case llm env truncatedContext (numQuestionsOf req) of
           None \<Rightarrow> (generateServerError, st, ev1)
         | Some raw \<Rightarrow>
             (case parseQuestions env raw of
                None \<Rightarrow>
                  (Message 500 ''Failed to parse AI response. The format was invalid.'',
                   st, ev1)
              | Some parsed \<Rightarrow>
                  (case persistQuiz env st req quizId c parsed of
                     (r, st') \<Rightarrow> (r, st', ev1 @ [QuizSave])))))"

text \<open>
  The controller. \<open>fileId\<close> is the id the upload stream generates, \<open>quizId\<close> the \<open>_id\<close>
  Mongoose gives the new document.
\<close>

definition generateQuizController ::
  "env \<Rightarrow> store \<Rightarrow> generate_request \<Rightarrow> objectId \<Rightarrow> objectId
   \<Rightarrow> generate_payload response \<times> store \<times> event list" where
  "generateQuizController env st req fileId quizId =
     (if falsy (body_title req)
      then (Message 400 ''A quiz title is required.'', st, [])
      else if req_file req = None \<and> topicBlank (body_topic req)
      then (Message 400
              ''Please provide either a topic or a PDF file to generate the quiz.'', st, [])
      else
        (case gatherContext env st req fileId of
           (Inl e, st1, ev) \<Rightarrow> (generateServerError, st1, ev)
         | (Inr c, st1, ev) \<Rightarrow> generateFromContext env st1 req quizId c ev))"

section \<open>getQuizPdfController\<close>

text \<open>\<open>Quiz.findById\<close> on an id that has been cast.\<close>

definition findById :: "store \<Rightarrow> objectId \<Rightarrow> quiz option" where
  "findById st oid = find (\<lambda>q. quiz_id q = oid) (quizzes st)"

text \<open>\<open>bucket.openDownloadStream(id)\<close>: the stream reports an error when no file has the id.\<close>

definition openDownloadStream :: "store \<Rightarrow> objectId \<Rightarrow> stored_file option" where
  "openDownloadStream st fid = find (\<lambda>f. file_id f = fid) (files st)"

record pdf_payload =
  hdr_contentType :: jstring
  hdr_contentDisposition :: jstring
  hdr_xQuizTitle :: jstring
  pdf_body :: bytes

text \<open>
  \<open>`inline; filename="${quiz.sourceFilename}"`\<close>; a file name that is not set prints
  as \<open>undefined\<close>.
\<close>

definition contentDisposition :: "jstring option \<Rightarrow> jstring" where
  "contentDisposition name =
     str ''inline; filename='' @ [34]
       @ (case name of None \<Rightarrow> str ''undefined'' | Some n \<Rightarrow> n) @ [34]"

text \<open>
  \<open>res.setHeader(name, value)\<close> throws on a value with a code unit other than a tab,
  \<open>0x20\<close> to \<open>0x7e\<close> and \<open>0x80\<close> to \<open>0xff\<close>. The value of \<open>Content-Type\<close> is a
  constant that passes; the other two values depend on the stored quiz.
\<close>

definition validHeaderValue :: "jstring \<Rightarrow> bool" where
  "validHeaderValue v =
     list_all (\<lambda>c. c = 9 \<or> (32 \<le> c \<and> c \<le> 126) \<or> (128 \<le> c \<and> c \<le> 255)) v"

definition setHeader :: "jstring \<Rightarrow> exn + unit" where
  "setHeader v = (if validHeaderValue v then Inr () else Inl InvalidHeaderChar)"

text \<open>
  The controller. The download stream is opened before the headers are set and reports
  a missing file only once it is piped, so a header that throws is met first; what is
  thrown has no \<open>kind\<close> and ends in the 500 of the \<open>catch\<close>.
\<close>

definition getQuizPdfController :: "env \<Rightarrow> store \<Rightarrow> jstring \<Rightarrow> pdf_payload response" where
  "getQuizPdfController env st quizId =
     (case castObjectId env quizId of
        None \<Rightarrow> Message 404 ''Quiz not found.''
      | Some oid \<Rightarrow>
          (case findById st oid of
             None \<Rightarrow> Message 404 ''Quiz not found.''
           | Some quiz \<Rightarrow>
               (case sourceFileId quiz of
                  None \<Rightarrow> Message 404 ''No PDF found for this quiz.''
                | Some fid \<Rightarrow>
                    (case getBucket st of
                       Inl e \<Rightarrow> Message 500 ''An error occurred on the server.''
                     | Inr _ \<Rightarrow>
                         (case setHeader (contentDisposition (sourceFilename quiz)) of
                            Inl e \<Rightarrow> Message 500 ''An error occurred on the server.''
                          | Inr _ \<Rightarrow>
                              (case setHeader (encodeURIComponent env (title quiz)) of
                                 Inl e \<Rightarrow> Message 500 ''An error occurred on the server.''
                               | Inr _ \<Rightarrow>
                                   (case openDownloadStream st fid of
                                      None \<Rightarrow> Message 500 ''Failed to retrieve PDF file.''
                                    | Some f \<Rightarrow>
                                        Payload 200
                                          \<lparr>hdr_contentType = str ''application/pdf'',
                                           hdr_contentDisposition =
                                             contentDisposition (sourceFilename quiz),
                                           hdr_xQuizTitle =
                                             encodeURIComponent env (title quiz),
                                           pdf_body = content f\<rparr>)))))))"

section \<open>getQuizForTakingController\<close>

text \<open>The question and the quiz as the student receives them.\<close>

record student_question =
  sq_id :: objectId
  sq_questionText :: jstring
  sq_options :: "jstring list"

record student_quiz =
  sz_id :: objectId
  sz_title :: jstring
  sz_questions :: "student_question list"

record taking_payload =
  tp_quiz :: student_quiz
  tp_results :: "result_doc list"

definition questionForStudent :: "question \<Rightarrow> student_question" where
  "questionForStudent q =
     \<lparr>sq_id = q_id q, sq_questionText = questionText q, sq_options = options q\<rparr>"

definition quizForStudent :: "quiz \<Rightarrow> student_quiz" where
  "quizForStudent quiz =
     \<lparr>sz_id = quiz_id quiz, sz_title = title quiz,
      sz_questions = map questionForStudent (questions quiz)\<rparr>"

text \<open>
  \<open>Result.find({ quiz: quizId }).sort({ createdAt: -1 })\<close>. The database fixes no order
  among results of one timestamp; the model takes the later insertion first.
\<close>

definition findResults :: "store \<Rightarrow> objectId \<Rightarrow> result_doc list" where
  "findResults st oid = rev (sort_key createdAt (filter (\<lambda>r. r_quiz r = oid) (results st)))"

definition getQuizForTakingController :: "env \<Rightarrow> store \<Rightarrow> jstring \<Rightarrow> taking_payload response" where
  "getQuizForTakingController env st quizId =
     (case castObjectId env quizId of
        None \<Rightarrow> Message 404 ''Quiz not found.''
      | Some oid \<Rightarrow>
          (case findById st oid of
             None \<Rightarrow> Message 404 ''Quiz not found.''
           | Some quiz \<Rightarrow>
               Payload 200 \<lparr>tp_quiz = quizForStudent quiz, tp_results = findResults st oid\<rparr>))"

section \<open>submitQuizController\<close>

text \<open>
  \<open>userAnswers.find(ans => ans.questionId === correctQuestion._id.toString())\<close> on an
  array: the first element whose \<open>questionId\<close> is that string; reading the property of
  an element that is \<open>null\<close> throws.
\<close>

fun findInArray :: "objectId \<Rightarrow> jsval list \<Rightarrow> exn + jsval option" where
  "findInArray qid [] = Inr None"
| "findInArray qid (ans # rest) =
     (case js_prop ans (str ''questionId'') of
        Inl e \<Rightarrow> Inl e
      | Inr v \<Rightarrow> if v = JStr qid then Inr (Some ans) else findInArray qid rest)"

text \<open>
  On \<open>undefined\<close> and \<open>null\<close> the property \<open>find\<close> cannot be read; on every other value
  that is not an array it is not a function (a value parsed from JSON holds none).
\<close>

definition findAnswer :: "objectId \<Rightarrow> jsval \<Rightarrow> exn + jsval option" where
  "findAnswer qid userAnswers =
     (case userAnswers of JArr xs \<Rightarrow> findInArray qid xs | _ \<Rightarrow> Inl TypeError)"

text \<open>
  The body of the \<open>forEach\<close> callback: the entry pushed to \<open>detailedResults\<close>.
  \<open>isCorrect = userAnswerObj && userAnswerObj.answer === correctQuestion.correctAnswer\<close>
  is \<open>undefined\<close> when nothing was found.
\<close>

definition gradeQuestion :: "jsval \<Rightarrow> question \<Rightarrow> exn + jsval answer_detail" where
  "gradeQuestion userAnswers q =
     (case findAnswer (q_id q) userAnswers of
        Inl e \<Rightarrow> Inl e
      | Inr None \<Rightarrow>
          Inr \<lparr>questionId = q_id q, d_questionText = questionText q,
               submittedAnswer = JStr (str ''No Answer''),
               d_correctAnswer = correctAnswer q, isCorrect = None\<rparr>
      | Inr (Some userAnswerObj) \<Rightarrow>
          (case js_prop userAnswerObj (str ''answer'') of
             Inl e \<Rightarrow> Inl e
           | Inr a \<Rightarrow>
               Inr \<lparr>questionId = q_id q, d_questionText = questionText q,
                    submittedAnswer = a,
                    d_correctAnswer = correctAnswer q,
                    isCorrect = Some (a = JStr (correctAnswer q))\<rparr>))"

text \<open>The \<open>forEach\<close> loop over \<open>quiz.questions\<close>, with \<open>score\<close> and \<open>detailedResults\<close>.\<close>

fun gradeAll ::
  "jsval \<Rightarrow> question list \<Rightarrow> nat \<Rightarrow> jsval answer_detail list
   \<Rightarrow> exn + (nat \<times> jsval answer_detail list)" where
  "gradeAll userAnswers [] sc detailed = Inr (sc, detailed)"
| "gradeAll userAnswers (q # qs) sc detailed =
     (case gradeQuestion userAnswers q of
        Inl e \<Rightarrow> Inl e
      | Inr d \<Rightarrow>
          gradeAll userAnswers qs
            (if isCorrect d = Some True then sc + 1 else sc) (detailed @ [d]))"

text \<open>Casting one entry to the subdocument of \<open>resultSchema\<close>.\<close>

definition castSubmitted :: "env \<Rightarrow> jsval \<Rightarrow> exn + jstring option" where
  "castSubmitted env v =
     (case v of
        JUndefined \<Rightarrow> Inr None
      | JNull \<Rightarrow> Inr None
      | JStr s \<Rightarrow> Inr (Some s)
      | _ \<Rightarrow> (case castString env v of None \<Rightarrow> Inl CastError | Some s \<Rightarrow> Inr (Some s)))"

definition castDetail :: "env \<Rightarrow> jsval answer_detail \<Rightarrow> exn + jstring option answer_detail" where
  "castDetail env d =
     (case castSubmitted env (submittedAnswer d) of
        Inl e \<Rightarrow> Inl e
      | Inr s \<Rightarrow>
          Inr \<lparr>questionId = questionId d, d_questionText = d_questionText d,
               submittedAnswer = s, d_correctAnswer = d_correctAnswer d,
               isCorrect = isCorrect d\<rparr>)"

fun castDetails ::
  "env \<Rightarrow> jsval answer_detail list \<Rightarrow> exn + jstring option answer_detail list" where
  "castDetails env [] = Inr []"
| "castDetails env (d # ds) =
     (case castDetail env d of
        Inl e \<Rightarrow> Inl e
      | Inr c \<Rightarrow> (case castDetails env ds of Inl e \<Rightarrow> Inl e | Inr cs \<Rightarrow> Inr (c # cs)))"

text \<open>\<open>new Result({...})\<close> and \<open>newResult.save()\<close>.\<close>

definition newResult ::
  "env \<Rightarrow> objectId \<Rightarrow> nat \<Rightarrow> objectId \<Rightarrow> nat \<Rightarrow> nat \<Rightarrow> jsval answer_detail list
   \<Rightarrow> exn + result_doc" where
  "newResult env resultId now oid sc n detailed =
     (case castDetails env detailed of
        Inl e \<Rightarrow> Inl e
      | Inr ds \<Rightarrow>
          Inr \<lparr>r_id = resultId, r_quiz = oid, score = sc, totalQuestions = n,
               submittedAnswers = ds, createdAt = now\<rparr>)"

definition saveResult :: "store \<Rightarrow> result_doc \<Rightarrow> exn + store" where
  "saveResult st r =
     (if r_id r \<in> set (map r_id (results st)) then Inl DuplicateKey
      else Inr (st\<lparr>results := results st @ [r]\<rparr>))"

record submit_payload =
  sp_message :: string
  sp_resultId :: objectId
  sp_score :: nat
  sp_totalQuestions :: nat
  sp_results :: "jsval answer_detail list"

definition submitServerError :: "submit_payload response" where
  "submitServerError =
     Message 500 ''An error occurred on the server while submitting the quiz.''"

text \<open>
  The controller. \<open>body\<close> is \<open>req.body\<close>, \<open>resultId\<close> the \<open>_id\<close> Mongoose gives the new
  document and \<open>now\<close> the time of the save.
\<close>

definition submitQuizController ::
  "env \<Rightarrow> store \<Rightarrow> jstring \<Rightarrow> jsval \<Rightarrow> objectId \<Rightarrow> nat \<Rightarrow> submit_payload response \<times> store" where
  "submitQuizController env st quizId body resultId now =
     (case js_prop body (str ''answers'') of
        Inl e \<Rightarrow> (submitServerError, st)
      | Inr userAnswers \<Rightarrow>
          (case castObjectId env quizId of
             None \<Rightarrow> (submitServerError, st)
           | Some oid \<Rightarrow>
               (case findById st oid of
                  None \<Rightarrow> (Message 404 ''Quiz not found.'', st)
                | Some quiz \<Rightarrow>
                    (case gradeAll userAnswers (questions quiz) 0 [] of
                       Inl e \<Rightarrow> (submitServerError, st)
                     | Inr (sc, detailedResults) \<Rightarrow>
                         (case newResult env resultId now oid sc
                                 (length (questions quiz)) detailedResults of
                            Inl e \<Rightarrow> (submitServerError, st)
                          | Inr r \<Rightarrow>
                              (case saveResult st r of
                                 Inl e \<Rightarrow> (submitServerError, st)
                               | Inr st' \<Rightarrow>
                                   (Payload 200
                                      \<lparr>sp_message = ''Quiz submitted successfully!'',
                                       sp_resultId = r_id r,
                                       sp_score = sc,
                                       sp_totalQuestions = length (questions quiz),
                                       sp_results = detailedResults\<rparr>, st')))))))"

section \<open>Histories of the store\<close>

text \<open>
  \<open>later st st'\<close>: the store \<open>st'\<close> is what \<open>st\<close> has become after any number of
  requests to the two writing controllers (with any environment, arguments and generated
  ids) and of runs of \<open>connectDB\<close>, which sets the bucket handle. The reading controllers
  leave the store as it is. A store is reachable when it comes from the empty database
  of a process that has not connected yet.
\<close>

inductive later :: "store \<Rightarrow> store \<Rightarrow> bool" where
  later_refl: "later st st"
| later_connect: "later st st1 \<Longrightarrow> later st (st1\<lparr>bucketInitialized := True\<rparr>)"
| later_generate:
    "later st st1 \<Longrightarrow> generateQuizController env st1 req fileId quizId = (r, st2, ev)
     \<Longrightarrow> later st st2"
| later_submit:
    "later st st1 \<Longrightarrow> submitQuizController env st1 quizId body resultId now = (r', st2)
     \<Longrightarrow> later st st2"

definition initial_store :: store where
  "initial_store = \<lparr>bucketInitialized = False, files = [], quizzes = [], results = []\<rparr>"

definition reachable :: "store \<Rightarrow> bool" where
  "reachable st = later initial_store st"

text \<open>
  What the results of a store record about the quizzes: quiz ids are unique, and every
  result belongs to a stored quiz and lists that quiz's question ids and correct
  answers, in the quiz's order.
\<close>

definition snapshots_ok :: "store \<Rightarrow> bool" where
  "snapshots_ok st =
     (distinct (map quiz_id (quizzes st))
      \<and> (\<forall>x \<in> set (results st). \<exists>q \<in> set (quizzes st).
            quiz_id q = r_quiz x
            \<and> map d_correctAnswer (submittedAnswers x) = map correctAnswer (questions q)
            \<and> map questionId (submittedAnswers x) = map q_id (questions q)))"

section \<open>Properties named by the specification\<close>

text \<open>
  The provenance invariant of the data model: \<open>sourceFileId\<close> is set iff
  \<open>sourceFilename\<close> is set iff \<open>sourceType\<close> is \<open>pdf\<close> or \<open>combined\<close>.
\<close>

definition provenance :: "quiz \<Rightarrow> bool" where
  "provenance q =
     ((sourceFileId q \<noteq> None) = (sourceFilename q \<noteq> None)
      \<and> (sourceFileId q \<noteq> None) = (sourceType q = SrcPdf \<or> sourceType q = SrcCombined))"

text \<open>
  An element \<open>{questionId, answer}\<close> of the \<open>answers\<close> array whose two fields are
  strings, as the pair of the two.
\<close>

definition answerEntry :: "jstring \<times> jstring \<Rightarrow> jsval" where
  "answerEntry e = JObj [(str ''questionId'', JStr (fst e)), (str ''answer'', JStr (snd e))]"

text \<open>
  The grading as the specification words it, for a list of such pairs, with the one
  change that the first pair with the question's id decides (\<open>map_of\<close> returns the value
  of the first pair with a key). \<open>expectedDetail\<close> is the entry of the response,
  \<open>expectedStoredDetail\<close> the entry of the stored document. These two follow the
  specification, not the source; the theorems compare the controller with them.
\<close>

definition expectedDetail :: "(jstring \<times> jstring) list \<Rightarrow> question \<Rightarrow> jsval answer_detail" where
  "expectedDetail as q =
     \<lparr>questionId = q_id q, d_questionText = questionText q,
      submittedAnswer =
        (case map_of as (q_id q) of None \<Rightarrow> JStr (str ''No Answer'') | Some a \<Rightarrow> JStr a),
      d_correctAnswer = correctAnswer q,
      isCorrect =
        (case map_of as (q_id q) of None \<Rightarrow> None | Some a \<Rightarrow> Some (a = correctAnswer q))\<rparr>"

definition expectedStoredDetail ::
  "(jstring \<times> jstring) list \<Rightarrow> question \<Rightarrow> jstring option answer_detail" where
  "expectedStoredDetail as q =
     \<lparr>questionId = q_id q, d_questionText = questionText q,
      submittedAnswer =
        (case map_of as (q_id q) of None \<Rightarrow> Some (str ''No Answer'') | Some a \<Rightarrow> Some a),
      d_correctAnswer = correctAnswer q,
      isCorrect =
        (case map_of as (q_id q) of None \<Rightarrow> None | Some a \<Rightarrow> Some (a = correctAnswer q))\<rparr>"

text \<open>
  The stripping of a code fence as the specification words it: a wrapper is an opening
  fence \<open>```json\<close> or \<open>```\<close> together with the closing fence \<open>```\<close>; a text without
  such a wrapper is parsed as it is (after trimming). This follows the specification,
  not the source, and is compared with \<open>cleanedText\<close>.
\<close>

definition endsWith :: "jstring \<Rightarrow> jstring \<Rightarrow> bool" where
  "endsWith s p = (length p \<le> length s \<and> drop (length s - length p) s = p)"

definition stripFence_spec :: "jstring \<Rightarrow> jstring" where
  "stripFence_spec raw =
     (let t = trim raw in
      if startsWith t (str ''```json'') \<and> endsWith t (str ''```'') \<and> 10 \<le> length t
      then take (length t - 10) (drop 7 t)
      else if startsWith t (str ''```'') \<and> endsWith t (str ''```'') \<and> 6 \<le> length t
      then take (length t - 6) (drop 3 t)
      else t)"

section \<open>Sample data\<close>

text \<open>
  A concrete history, used where a theorem is instantiated: a connected, empty store; a
  PDF whose text is one sentence; a model whose answer is the argument \<open>raw\<close>; a quiz
  generated from a topic, and two submissions to it. The environment of the history
  agrees with \<open>JSON.parse\<close> on every string the history passes to it: \<open>sample_json\<close>
  parses to \<open>sample_parsed\<close>, and the other strings (\<open>malformed_raw\<close>, and
  \<open>unclosed_fence_raw\<close> as a whole) are not JSON. Ids are 24 hexadecimal digits.
\<close>

definition empty_store :: store where
  "empty_store = \<lparr>bucketInitialized = True, files = [], quizzes = [], results = []\<rparr>"

definition sample_question :: question where
  "sample_question =
     \<lparr>q_id = str ''65f0c0ffee00000000000001'', questionText = str ''What is a heap?'',
      options = [str ''A tree'', str ''A list''], correctAnswer = str ''A tree''\<rparr>"

definition sample_json :: jstring where
  \<open>sample_json =
     str ''[{"questionText":"What is a heap?","options":["A tree","A list"],"correctAnswer":"A tree"}]''\<close>

definition sample_parsed :: "jsval list" where
  "sample_parsed =
     [JObj [(str ''questionText'', JStr (str ''What is a heap?'')),
            (str ''options'', JArr [JStr (str ''A tree''), JStr (str ''A list'')]),
            (str ''correctAnswer'', JStr (str ''A tree''))]]"

definition sample_pdf_text :: jstring where
  "sample_pdf_text =
     str ''A heap is a tree in which every parent is ordered before its children.''"

definition is_hex24 :: "jstring \<Rightarrow> bool" where
  "is_hex24 s = (length s = 24 \<and> list_all (\<lambda>c. c \<in> set (str ''0123456789abcdef'')) s)"

definition sample_env :: "jstring \<Rightarrow> env" where
  "sample_env raw =
     \<lparr>pdf = (\<lambda>b. Some sample_pdf_text),
      llm = (\<lambda>c n. Some raw),
      json_parse = (\<lambda>s. if s = sample_json then Some (JArr sample_parsed) else None),
      castQuestions = (\<lambda>xs. if xs = sample_parsed then Some [sample_question] else None),
      castString = (\<lambda>v. None),
      castObjectId = (\<lambda>s. if is_hex24 s then Some s else None),
      encodeURIComponent = (\<lambda>s. s)\<rparr>"

definition sample_quiz_id :: objectId where
  "sample_quiz_id = str ''65f0c0ffee000000000000aa''"


definition sample_file_id :: objectId where
  "sample_file_id = str ''65f0c0ffee000000000000f1''"

definition sample_result_id :: objectId where
  "sample_result_id = str ''65f0c0ffee000000000000bb''"

definition second_result_id :: objectId where
  "second_result_id = str ''65f0c0ffee000000000000bc''"

text \<open>Requests with a topic only: one too short, one long enough.\<close>

definition short_topic_request :: generate_request where
  "short_topic_request =
     \<lparr>body_title = Some (str ''Cats''), body_numQuestions = None,
      body_topic = Some (str ''cats''), req_file = None\<rparr>"

definition topic_request :: generate_request where
  "topic_request =
     \<lparr>body_title = Some (str ''Heaps''), body_numQuestions = Some (str ''1''),
      body_topic = Some sample_pdf_text, req_file = None\<rparr>"

definition topic_context :: jstring where
  "topic_context = str ''Topic provided by user:'' @ [10] @ sample_pdf_text"

definition sample_quiz :: quiz where
  "sample_quiz =
     \<lparr>quiz_id = sample_quiz_id, title = str ''Heaps'', topic = sample_pdf_text,
      sourceType = SrcText, sourceFilename = None, sourceFileId = None,
      questions = [sample_question]\<rparr>"

definition quiz_store :: store where
  "quiz_store = empty_store\<lparr>quizzes := [sample_quiz]\<rparr>"

text \<open>Two answers of the model that are not a bare array.\<close>

definition unclosed_fence_raw :: jstring where
  "unclosed_fence_raw = str ''```json'' @ sample_json @ str ''EOF''"

definition malformed_raw :: jstring where
  \<open>malformed_raw = str ''Here are your questions: [{"questionText": "What is a heap?"}]''\<close>

text \<open>Requests with a file: with a topic, and with a topic of three spaces.\<close>

definition sample_upload :: upload where
  "sample_upload =
     \<lparr>originalname = str ''heaps.pdf'', mimetype = str ''application/pdf'',
      buffer = [0x25, 0x50, 0x44, 0x46]\<rparr>"

definition combined_request :: generate_request where
  "combined_request =
     \<lparr>body_title = Some (str '' Heaps ''), body_numQuestions = None,
      body_topic = Some (str ''Binary heaps''), req_file = Some sample_upload\<rparr>"

definition combined_context :: jstring where
  "combined_context =
     str ''Topic provided by user:'' @ [10] @ str ''Binary heaps''
       @ [10, 10] @ str ''--- Content from uploaded PDF (heaps.pdf) ---'' @ [10]
       @ sample_pdf_text"

definition combined_quiz :: quiz where
  "combined_quiz =
     \<lparr>quiz_id = sample_quiz_id, title = str ''Heaps'', topic = str ''Binary heaps'',
      sourceType = SrcCombined, sourceFilename = Some (str ''heaps.pdf''),
      sourceFileId = Some sample_file_id, questions = [sample_question]\<rparr>"

definition combined_store :: store where
  "combined_store =
     \<lparr>bucketInitialized = True,
      files = [\<lparr>file_id = sample_file_id, filename = str ''heaps.pdf'',
                contentType = str ''application/pdf'', content = [0x25, 0x50, 0x44, 0x46]\<rparr>],
      quizzes = [combined_quiz], results = []\<rparr>"

definition blank_topic_request :: generate_request where
  "blank_topic_request =
     \<lparr>body_title = Some (str ''Heaps''), body_numQuestions = None,
      body_topic = Some (str ''   ''), req_file = Some sample_upload\<rparr>"

text \<open>
  A request with a file only, whose name is the one CJK character U+4E2D and the
  extension; the quiz and the store that generate makes of it.
\<close>

definition unicode_name :: jstring where
  "unicode_name = [20013] @ str ''.pdf''"

definition unicode_upload :: upload where
  "unicode_upload =
     \<lparr>originalname = unicode_name, mimetype = str ''application/pdf'',
      buffer = [0x25, 0x50, 0x44, 0x46]\<rparr>"

definition unicode_name_request :: generate_request where
  "unicode_name_request =
     \<lparr>body_title = Some (str ''Heaps''), body_numQuestions = None,
      body_topic = None, req_file = Some unicode_upload\<rparr>"

definition unicode_quiz :: quiz where
  "unicode_quiz =
     \<lparr>quiz_id = sample_quiz_id, title = str ''Heaps'',
      topic = str ''Content from '' @ unicode_name,
      sourceType = SrcPdf, sourceFilename = Some (unicode_name),
      sourceFileId = Some sample_file_id, questions = [sample_question]\<rparr>"

definition unicode_store :: store where
  "unicode_store =
     \<lparr>bucketInitialized = True,
      files = [\<lparr>file_id = sample_file_id, filename = unicode_name,
                contentType = str ''application/pdf'', content = [0x25, 0x50, 0x44, 0x46]\<rparr>],
      quizzes = [unicode_quiz], results = []\<rparr>"

text \<open>
  Submissions to the sample quiz: two answers to its one question, the wrong one first;
  and the documents stored for a right answer at time 1000 and for no answer at time
  2000.
\<close>

definition duplicate_answers :: "(jstring \<times> jstring) list" where
  "duplicate_answers =
     [(str ''65f0c0ffee00000000000001'', str ''A list''),
      (str ''65f0c0ffee00000000000001'', str ''A tree'')]"

definition first_result :: result_doc where
  "first_result =
     \<lparr>r_id = sample_result_id, r_quiz = sample_quiz_id, score = 1, totalQuestions = 1,
      submittedAnswers =
        [\<lparr>questionId = q_id sample_question,
          d_questionText = questionText sample_question,
          submittedAnswer = Some (str ''A tree''),
          d_correctAnswer = correctAnswer sample_question,
          isCorrect = Some True\<rparr>],
      createdAt = 1000\<rparr>"

definition second_result :: result_doc where
  "second_result =
     \<lparr>r_id = second_result_id, r_quiz = sample_quiz_id, score = 0,
      totalQuestions = 1,
      submittedAnswers =
        [\<lparr>questionId = q_id sample_question,
          d_questionText = questionText sample_question,
          submittedAnswer = Some (str ''No Answer''),
          d_correctAnswer = correctAnswer sample_question,
          isCorrect = None\<rparr>],
      createdAt = 2000\<rparr>"

definition graded_store :: store where
  "graded_store = quiz_store\<lparr>results := [first_result, second_result]\<rparr>"

section \<open>Facts about the generating controller\<close>

lemma topicGiven_iff: "topicGiven t = (\<not> topicBlank t)"
  by (cases t) (auto simp: topicGiven_def topicBlank_def)

lemma topicContext_fields:
  "ctx_sourceType (topicContext req) = (if topicGiven (body_topic req) then SrcText else SrcUnset)
   \<and> ctx_sourceFilename (topicContext req) = None
   \<and> ctx_sourceFileId (topicContext req) = None"
  by (auto simp: topicContext_def topicGiven_def split: option.splits)

lemma gatherContext_events:
  assumes "gatherContext env st req fileId = (res, st1, ev)"
  shows "set ev \<subseteq> {GridFsUpload fileId, PdfParse} \<and> quizzes st1 = quizzes st
         \<and> results st1 = results st"
  using assms
  by (auto simp: gatherContext_def getBucket_def uploadToGridFs_def
           split: option.splits sum.splits if_splits)

lemma gatherContext_extends:
  assumes "gatherContext env st req fileId = (res, st1, ev)"
  shows "bucketInitialized st1 = bucketInitialized st \<and> (\<exists>fs. files st1 = files st @ fs)
         \<and> quizzes st1 = quizzes st \<and> results st1 = results st"
  using assms
  by (auto simp: gatherContext_def getBucket_def uploadToGridFs_def
           split: option.splits sum.splits if_splits)

lemma gatherContext_no_file:
  assumes "req_file req = None"
  shows "gatherContext env st req fileId = (Inr (topicContext req), st, [])"
  using assms by (simp add: gatherContext_def)

lemma gatherContext_file:
  assumes "gatherContext env st req fileId = (Inr c, st1, ev)"
    and "req_file req = Some f"
  obtains pdfText where
    "bucketInitialized st"
    "fileId \<notin> set (map file_id (files st))"
    "st1 = st\<lparr>files := files st @
        [\<lparr>file_id = fileId, filename = originalname f,
          contentType = mimetype f, content = buffer f\<rparr>]\<rparr>"
    "pdf env (buffer f) = Some pdfText"
    "c = withPdf (topicContext req) fileId f pdfText"
  using assms
  unfolding gatherContext_def getBucket_def uploadToGridFs_def
  by (auto split: if_splits sum.splits option.splits)

lemma saveQuiz_success:
  assumes "saveQuiz st q = Inr st'"
  shows "validQuiz q \<and> quiz_id q \<notin> set (map quiz_id (quizzes st))
         \<and> st' = st\<lparr>quizzes := quizzes st @ [q]\<rparr>"
  using assms by (auto simp: saveQuiz_def split: if_splits)

lemma newQuiz_fields:
  assumes "newQuiz env quizId req c parsed = Inr q"
  shows "quiz_id q = quizId \<and> sourceType q = ctx_sourceType c
         \<and> sourceFilename q = ctx_sourceFilename c \<and> sourceFileId q = ctx_sourceFileId c
         \<and> topic q = quizTopic req c"
  using assms by (auto simp: newQuiz_def split: option.splits)

text \<open>What a 201 answer tells about the run that produced it.\<close>

lemma generate_success:
  assumes "generateQuizController env st req fileId quizId = (Payload code p, st', ev)"
  obtains c st1 ev0 raw parsed q where
    "\<not> falsy (body_title req)"
    "\<not> (req_file req = None \<and> topicBlank (body_topic req))"
    "gatherContext env st req fileId = (Inr c, st1, ev0)"
    "50 \<le> length (trim (contextText c))"
    "llm env (substring0 24000 (contextText c)) (numQuestionsOf req) = Some raw"
    "parseQuestions env raw = Some parsed"
    "newQuiz env quizId req c parsed = Inr q"
    "saveQuiz st1 q = Inr st'"
    "code = 201"
    "p = \<lparr>gp_message = ''Quiz generated and saved successfully!'',
          gp_quizId = quiz_id q, gp_data = q\<rparr>"
    "ev = ev0 @ [LlmCall (substring0 24000 (contextText c)) (numQuestionsOf req), QuizSave]"
  using assms
  unfolding generateQuizController_def generateFromContext_def persistQuiz_def
    generateServerError_def Let_def
  by (auto split: if_splits sum.splits option.splits prod.splits)

text \<open>The stored topic of a generated quiz.\<close>

lemma generated_topic:
  assumes "generateQuizController env st req fileId quizId = (Payload code p, st', ev)"
  shows "topic (gp_data p) \<noteq> []
         \<and> topic (gp_data p) =
             (case body_topic req of
                Some t \<Rightarrow>
                  if t \<noteq> [] then t
                  else str ''Content from '' @
                    (case req_file req of None \<Rightarrow> str ''null'' | Some f \<Rightarrow> originalname f)
              | None \<Rightarrow> str ''Content from '' @
                    (case req_file req of None \<Rightarrow> str ''null'' | Some f \<Rightarrow> originalname f))"
proof -
  from assms obtain c st1 ev0 raw parsed q where
    g: "gatherContext env st req fileId = (Inr c, st1, ev0)"
    and n: "newQuiz env quizId req c parsed = Inr q"
    and s: "saveQuiz st1 q = Inr st'"
    and p: "p = \<lparr>gp_message = ''Quiz generated and saved successfully!'',
                 gp_quizId = quiz_id q, gp_data = q\<rparr>"
    by (rule generate_success)
  have ne: "topic q \<noteq> []"
    using saveQuiz_success [OF s] by (simp add: validQuiz_def)
  have fn: "ctx_sourceFilename c = map_option originalname (req_file req)"
  proof (cases "req_file req")
    case None
    with g have "c = topicContext req" by (simp add: gatherContext_no_file)
    with None show ?thesis by (simp add: topicContext_fields)
  next
    case (Some f)
    from g Some obtain pdfText where "c = withPdf (topicContext req) fileId f pdfText"
      by (rule gatherContext_file)
    with Some show ?thesis by (simp add: withPdf_def)
  qed
  from newQuiz_fields [OF n] have "topic q = quizTopic req c" by simp
  with ne fn p show ?thesis
    by (auto simp: quizTopic_def split: option.splits)
qed

text \<open>No request removes or changes what is stored: the store only grows.\<close>

lemma persistQuiz_extends:
  assumes "persistQuiz env st req quizId c parsed = (r, st')"
  shows "bucketInitialized st' = bucketInitialized st \<and> files st' = files st
         \<and> (quizzes st' = quizzes st
              \<or> (\<exists>q. quizzes st' = quizzes st @ [q]
                    \<and> quiz_id q \<notin> set (map quiz_id (quizzes st))))
         \<and> results st' = results st"
  using assms
  by (auto simp: persistQuiz_def saveQuiz_def split: sum.splits if_splits)

lemma generateFromContext_extends:
  assumes "generateFromContext env st req quizId c ev0 = (r, st', ev)"
  shows "bucketInitialized st' = bucketInitialized st \<and> files st' = files st
         \<and> (quizzes st' = quizzes st
              \<or> (\<exists>q. quizzes st' = quizzes st @ [q]
                    \<and> quiz_id q \<notin> set (map quiz_id (quizzes st))))
         \<and> results st' = results st"
proof (cases "length (trim (contextText c)) < 50")
  case True
  with assms show ?thesis by (simp add: generateFromContext_def)
next
  case False
  show ?thesis
  proof (cases "llm env (substring0 24000 (contextText c)) (numQuestionsOf req)")
    case None
    with assms False show ?thesis by (simp add: generateFromContext_def Let_def)
  next
    case (Some raw)
    show ?thesis
    proof (cases "parseQuestions env raw")
      case None
      with assms False Some show ?thesis by (simp add: generateFromContext_def Let_def)
    next
      case (Some parsed)
      obtain r0 st0 where p: "persistQuiz env st req quizId c parsed = (r0, st0)"
        by (cases "persistQuiz env st req quizId c parsed")
      with assms False \<open>llm env (substring0 24000 (contextText c)) (numQuestionsOf req) = Some raw\<close>
        Some have "st' = st0"
        by (simp add: generateFromContext_def Let_def)
      with persistQuiz_extends [OF p] show ?thesis by simp
    qed
  qed
qed

lemma generate_extends:
  assumes "generateQuizController env st req fileId quizId = (r, st', ev)"
  shows "bucketInitialized st' = bucketInitialized st
         \<and> (\<exists>fs. files st' = files st @ fs)
         \<and> (quizzes st' = quizzes st
              \<or> (\<exists>q. quizzes st' = quizzes st @ [q]
                    \<and> quiz_id q \<notin> set (map quiz_id (quizzes st))))
         \<and> results st' = results st"
proof (cases "falsy (body_title req) \<or> (req_file req = None \<and> topicBlank (body_topic req))")
  case True
  with assms have "st' = st"
    by (auto simp: generateQuizController_def split: if_splits)
  then show ?thesis by simp
next
  case False
  obtain res st1 ev0 where g: "gatherContext env st req fileId = (res, st1, ev0)"
    by (cases "gatherContext env st req fileId")
  note ge = gatherContext_extends [OF g]
  show ?thesis
  proof (cases res)
    case (Inl e)
    with assms False g have "st' = st1" by (auto simp: generateQuizController_def)
    with ge show ?thesis by simp
  next
    case (Inr c)
    with assms False g have "generateFromContext env st1 req quizId c ev0 = (r, st', ev)"
      by (auto simp: generateQuizController_def)
    from generateFromContext_extends [OF this] ge show ?thesis by simp
  qed
qed

section \<open>Facts about lookups\<close>

lemma find_snoc_fresh:
  assumes "\<forall>x \<in> set xs. \<not> P x" and "P y"
  shows "find P (xs @ [y]) = Some y"
  using assms by (induction xs) auto

lemma find_append_Some:
  assumes "find P xs = Some x"
  shows "find P (xs @ ys) = Some x"
  using assms by (induction xs) (auto split: if_splits)

lemma not_in_map:
  assumes "k \<notin> set (map f xs)"
  shows "\<forall>x \<in> set xs. \<not> f x = k"
  using assms by (induction xs) auto

lemma findById_Some:
  assumes "findById st oid = Some quiz"
  shows "quiz \<in> set (quizzes st) \<and> quiz_id quiz = oid"
  using assms by (auto simp: findById_def find_Some_iff in_set_conv_nth)


lemma same_id_same_quiz:
  assumes "distinct (map quiz_id qs)" and "a \<in> set qs" and "b \<in> set qs"
    and "quiz_id a = quiz_id b"
  shows "a = b"
  using assms by (meson distinct_map inj_onD)



section \<open>Facts about grading\<close>

text \<open>Every graded entry carries the id and the correct answer of its question.\<close>

lemma gradeQuestion_snapshot:
  assumes "gradeQuestion userAnswers q = Inr d"
  shows "d_correctAnswer d = correctAnswer q \<and> questionId d = q_id q"
  using assms
  by (auto simp: gradeQuestion_def split: sum.splits option.splits)

lemma gradeAll_snapshot:
  assumes "gradeAll userAnswers qs sc detailed = Inr (sc', detailed')"
  shows "map d_correctAnswer detailed' = map d_correctAnswer detailed @ map correctAnswer qs
         \<and> map questionId detailed' = map questionId detailed @ map q_id qs"
  using assms
proof (induction qs arbitrary: sc detailed)
  case Nil
  then show ?case by simp
next
  case (Cons q qs)
  from Cons.prems obtain d where d: "gradeQuestion userAnswers q = Inr d"
    and rest: "gradeAll userAnswers qs (if isCorrect d = Some True then sc + 1 else sc)
                 (detailed @ [d]) = Inr (sc', detailed')"
    by (auto split: sum.splits)
  from Cons.IH [OF rest] gradeQuestion_snapshot [OF d] show ?case by simp
qed

lemma castDetails_snapshot:
  assumes "castDetails env ds = Inr cs"
  shows "map d_correctAnswer cs = map d_correctAnswer ds
         \<and> map questionId cs = map questionId ds"
  using assms
proof (induction ds arbitrary: cs)
  case Nil
  then show ?case by simp
next
  case (Cons d ds)
  from Cons.prems obtain c cs' where c: "castDetail env d = Inr c"
    and r: "castDetails env ds = Inr cs'" and cs: "cs = c # cs'"
    by (auto split: sum.splits)
  from c have "d_correctAnswer c = d_correctAnswer d \<and> questionId c = questionId d"
    by (auto simp: castDetail_def split: sum.splits)
  with Cons.IH [OF r] cs show ?case by simp
qed

lemma submit_extends:
  assumes "submitQuizController env st quizId body resultId now = (r, st')"
  shows "bucketInitialized st' = bucketInitialized st \<and> files st' = files st
         \<and> quizzes st' = quizzes st
         \<and> (results st' = results st
              \<or> (\<exists>x quiz. results st' = results st @ [x]
                    \<and> findById st (r_quiz x) = Some quiz
                    \<and> map d_correctAnswer (submittedAnswers x) = map correctAnswer (questions quiz)
                    \<and> map questionId (submittedAnswers x) = map q_id (questions quiz)))"
proof (cases "js_prop body (str ''answers'')")
  case (Inl e)
  with assms show ?thesis by (simp add: submitQuizController_def)
next
  case (Inr userAnswers)
  note a = this
  show ?thesis
  proof (cases "castObjectId env quizId")
    case None
    with assms a show ?thesis by (simp add: submitQuizController_def)
  next
    case (Some oid)
    note o = this
    show ?thesis
    proof (cases "findById st oid")
      case None
      with assms a o show ?thesis by (simp add: submitQuizController_def)
    next
      case (Some quiz)
      note f = this
      show ?thesis
      proof (cases "gradeAll userAnswers (questions quiz) 0 []")
        case (Inl e)
        with assms a o f show ?thesis by (simp add: submitQuizController_def)
      next
        case (Inr graded)
        obtain sc det where g: "gradeAll userAnswers (questions quiz) 0 [] = Inr (sc, det)"
          using Inr by (cases graded) simp
        show ?thesis
        proof (cases "newResult env resultId now oid sc (length (questions quiz)) det")
          case (Inl e)
          with assms a o f g show ?thesis by (simp add: submitQuizController_def)
        next
          case (Inr x)
          note n = this
          from n obtain ds where c: "castDetails env det = Inr ds"
            and x: "x = \<lparr>r_id = resultId, r_quiz = oid, score = sc,
                         totalQuestions = length (questions quiz),
                         submittedAnswers = ds, createdAt = now\<rparr>"
            by (auto simp: newResult_def split: sum.splits)
          show ?thesis
          proof (cases "saveResult st x")
            case (Inl e)
            with assms a o f g n show ?thesis by (simp add: submitQuizController_def)
          next
            case (Inr st2)
            then have s2: "st2 = st\<lparr>results := results st @ [x]\<rparr>"
              by (auto simp: saveResult_def split: if_splits)
            from assms a o f g n Inr have "st' = st2"
              by (simp add: submitQuizController_def)
            with s2 gradeAll_snapshot [OF g] castDetails_snapshot [OF c] f x
            show ?thesis by auto
          qed
        qed
      qed
    qed
  qed
qed

text \<open>Grading an array of well-formed entries.\<close>

lemma js_prop_answerEntry:
  "js_prop (answerEntry (k, a)) (str ''questionId'') = Inr (JStr k)"
  "js_prop (answerEntry (k, a)) (str ''answer'') = Inr (JStr a)"
  by (simp_all add: answerEntry_def str_def)

lemma findInArray_entries:
  "findInArray qid (map answerEntry as) =
     Inr (map_option (\<lambda>a. answerEntry (qid, a)) (map_of as qid))"
proof (induction as)
  case Nil
  show ?case by simp
next
  case (Cons e as)
  obtain k a where e: "e = (k, a)" by (cases e)
  show ?case
    using Cons.IH by (auto simp: e js_prop_answerEntry)
qed

lemma gradeQuestion_entries:
  "gradeQuestion (JArr (map answerEntry as)) q = Inr (expectedDetail as q)"
  by (cases "map_of as (q_id q)")
     (simp_all add: gradeQuestion_def findAnswer_def findInArray_entries
        js_prop_answerEntry expectedDetail_def)

lemma isCorrect_expectedDetail:
  "(isCorrect (expectedDetail as q) = Some True) = (map_of as (q_id q) = Some (correctAnswer q))"
  by (cases "map_of as (q_id q)") (auto simp: expectedDetail_def)

lemma gradeAll_entries:
  "gradeAll (JArr (map answerEntry as)) qs sc detailed =
     Inr (sc + length (filter (\<lambda>q. map_of as (q_id q) = Some (correctAnswer q)) qs),
          detailed @ map (expectedDetail as) qs)"
  by (induction qs arbitrary: sc detailed)
     (simp_all add: gradeQuestion_entries isCorrect_expectedDetail)

lemma castDetail_entries:
  "castDetail env (expectedDetail as q) = Inr (expectedStoredDetail as q)"
  by (cases "map_of as (q_id q)")
     (simp_all add: castDetail_def castSubmitted_def expectedDetail_def expectedStoredDetail_def)

lemma castDetails_entries:
  "castDetails env (map (expectedDetail as) qs) = Inr (map (expectedStoredDetail as) qs)"
  by (induction qs) (simp_all add: castDetail_entries)

lemma submit_entries:
  assumes "js_prop body (str ''answers'') = Inr (JArr (map answerEntry as))"
    and "castObjectId env quizId = Some oid"
    and "findById st oid = Some quiz"
    and "resultId \<notin> set (map r_id (results st))"
  shows "submitQuizController env st quizId body resultId now =
     (Payload 200
        \<lparr>sp_message = ''Quiz submitted successfully!'',
         sp_resultId = resultId,
         sp_score = length (filter (\<lambda>q. map_of as (q_id q) = Some (correctAnswer q))
                              (questions quiz)),
         sp_totalQuestions = length (questions quiz),
         sp_results = map (expectedDetail as) (questions quiz)\<rparr>,
      st\<lparr>results := results st @
        [\<lparr>r_id = resultId, r_quiz = oid,
          score = length (filter (\<lambda>q. map_of as (q_id q) = Some (correctAnswer q))
                            (questions quiz)),
          totalQuestions = length (questions quiz),
          submittedAnswers = map (expectedStoredDetail as) (questions quiz),
          createdAt = now\<rparr>]\<rparr>)"
  using assms
  by (simp add: submitQuizController_def gradeAll_entries newResult_def
        castDetails_entries saveResult_def)

text \<open>Grading against a value that is not an array.\<close>

lemma gradeAll_not_array:
  assumes "\<forall>xs. userAnswers \<noteq> JArr xs" and "qs \<noteq> []"
  shows "gradeAll userAnswers qs sc detailed = Inl TypeError"
proof -
  have "findAnswer qid userAnswers = Inl TypeError" for qid
    using assms(1) by (cases userAnswers) (auto simp: findAnswer_def)
  then show ?thesis
    using assms(2) by (cases qs) (auto simp: gradeQuestion_def)
qed

section \<open>Facts about histories\<close>

lemma later_extends:
  assumes "later st st'"
  shows "(bucketInitialized st \<longrightarrow> bucketInitialized st')
         \<and> (\<exists>fs. files st' = files st @ fs) \<and> (\<exists>qs. quizzes st' = quizzes st @ qs)"
  using assms
proof (induction rule: later.induct)
  case (later_refl st)
  then show ?case by simp
next
  case (later_connect st st1)
  then show ?case by simp
next
  case (later_generate st st1 env req fileId quizId r st2 ev)
  from later_generate.IH obtain fs qs where
    b: "bucketInitialized st \<longrightarrow> bucketInitialized st1"
    and f: "files st1 = files st @ fs" and q: "quizzes st1 = quizzes st @ qs"
    by blast
  from generate_extends [OF later_generate.hyps(2)] obtain fs' qs' where
    b': "bucketInitialized st2 = bucketInitialized st1"
    and f': "files st2 = files st1 @ fs'" and q': "quizzes st2 = quizzes st1 @ qs'"
    by (metis append_Nil2)
  have "files st2 = files st @ (fs @ fs')" "quizzes st2 = quizzes st @ (qs @ qs')"
    using f f' q q' by simp_all
  with b b' show ?case by blast
next
  case (later_submit st st1 env quizId body resultId now r' st2)
  from submit_extends [OF later_submit.hyps(2)] later_submit.IH show ?case
    by simp
qed

lemma later_snapshots_ok:
  assumes "later st st'" and "snapshots_ok st"
  shows "snapshots_ok st'"
  using assms
proof (induction rule: later.induct)
  case (later_refl st)
  then show ?case by simp
next
  case (later_connect st st1)
  then show ?case by (simp add: snapshots_ok_def)
next
  case (later_generate st st1 env req fileId quizId r st2 ev)
  then have ok: "snapshots_ok st1" by simp
  from generate_extends [OF later_generate.hyps(2)] ok show ?case
    by (auto simp: snapshots_ok_def)
next
  case (later_submit st st1 env quizId body resultId now r' st2)
  then have ok: "snapshots_ok st1" by simp
  note ext = submit_extends [OF later_submit.hyps(2)]
  show ?case
  proof (cases "results st2 = results st1")
    case True
    with ext ok show ?thesis by (simp add: snapshots_ok_def)
  next
    case False
    with ext obtain x quiz where x: "results st2 = results st1 @ [x]"
      and f: "findById st1 (r_quiz x) = Some quiz"
      and m: "map d_correctAnswer (submittedAnswers x) = map correctAnswer (questions quiz)"
             "map questionId (submittedAnswers x) = map q_id (questions quiz)"
      by blast
    from findById_Some [OF f] m
    have "\<exists>q \<in> set (quizzes st1). quiz_id q = r_quiz x
            \<and> map d_correctAnswer (submittedAnswers x) = map correctAnswer (questions q)
            \<and> map questionId (submittedAnswers x) = map q_id (questions q)"
      by blast
    with ext ok x show ?thesis by (auto simp: snapshots_ok_def)
  qed
qed

lemma reachable_snapshots_ok:
  assumes "reachable st"
  shows "snapshots_ok st"
  using assms later_snapshots_ok [of initial_store st]
  by (simp add: reachable_def snapshots_ok_def initial_store_def)

section \<open>Facts about the code fence\<close>

lemma startsWith_append:
  assumes "startsWith t (p @ q)"
  shows "startsWith t p"
proof -
  have "take (length p) (take (length (p @ q)) t) = take (length p) (p @ q)"
    using assms by (simp add: startsWith_def)
  then show ?thesis by (simp add: startsWith_def min_def)
qed

lemma json_fence_split: "str ''```json'' = str ''```'' @ str ''json''"
  by (simp add: str_def)

lemma cleanedText_json_fence:
  assumes "trim raw = str ''```json'' @ mid @ str ''```''"
  shows "cleanedText raw = mid"
  using assms by (simp add: cleanedText_def startsWith_def slice_from_to_end_minus_def str_def)

lemma fence_then_json:
  assumes "startsWith (str ''```'' @ mid @ str ''```'') (str ''```json'')"
  shows "startsWith mid (str ''json'')"
proof -
  define j where "j = str ''json''"
  define b where "b = str ''```''"
  have nb: "hd b \<notin> set j" "b \<noteq> []"
    by (simp_all add: j_def b_def str_def)
  from assms have eq: "take (length j) (mid @ b) = j"
    by (simp add: startsWith_def json_fence_split j_def b_def)
  show ?thesis
  proof (cases "length j \<le> length mid")
    case True
    with eq show ?thesis by (simp add: startsWith_def j_def)
  next
    case False
    then have "take (length j - length mid) b \<noteq> []"
      using nb(2) by simp
    then have "hd b \<in> set (take (length j - length mid) b)"
      by (metis hd_in_set hd_take length_greater_0_conv length_take min_less_iff_conj take_eq_Nil)
    then have "hd b \<in> set (take (length j) (mid @ b))"
      by simp
    with eq nb(1) show ?thesis by simp
  qed
qed

lemma cleanedText_plain_fence:
  assumes "trim raw = str ''```'' @ mid @ str ''```''" and "\<not> startsWith mid (str ''json'')"
  shows "cleanedText raw = mid"
proof -
  have "\<not> startsWith (trim raw) (str ''```json'')"
    using assms fence_then_json by auto
  moreover have "startsWith (trim raw) (str ''```'')"
    using assms(1) by (simp add: startsWith_def)
  moreover have "slice_from_to_end_minus 3 3 (trim raw) = mid"
    using assms(1) by (simp add: slice_from_to_end_minus_def str_def)
  ultimately show ?thesis
    by (simp add: cleanedText_def)
qed

lemma cleanedText_no_fence:
  assumes "\<not> startsWith (trim raw) (str ''```'')"
  shows "cleanedText raw = trim raw"
proof -
  have "\<not> startsWith (trim raw) (str ''```json'')"
    using assms startsWith_append [of "trim raw" "str ''```''" "str ''json''"]
    by (auto simp: json_fence_split)
  with assms show ?thesis by (simp add: cleanedText_def)
qed

section \<open>Facts about the sample data\<close>

lemma sample_env_fields:
  "pdf (sample_env raw) b = Some sample_pdf_text"
  "llm (sample_env raw) c n = Some raw"
  "castQuestions (sample_env raw) sample_parsed = Some [sample_question]"
  by (simp_all add: sample_env_def)

lemma cast_sample_quiz_id: "castObjectId (sample_env raw) sample_quiz_id = Some sample_quiz_id"
  by (simp add: sample_env_def is_hex24_def sample_quiz_id_def str_def)

lemma find_sample_quiz: "findById quiz_store sample_quiz_id = Some sample_quiz"
  by (simp add: findById_def quiz_store_def sample_quiz_def)

lemma results_quiz_store: "results quiz_store = []"
  by (simp add: quiz_store_def empty_store_def)

lemma questions_sample_quiz: "questions sample_quiz = [sample_question]"
  by (simp add: sample_quiz_def)

lemma trim_sample_json: "trim sample_json = sample_json"
  by (simp add: trim_def sample_json_def str_def is_ws_def)

lemma cleanedText_sample_json: "cleanedText sample_json = sample_json"
  by (simp add: cleanedText_def trim_sample_json startsWith_def)
     (simp add: sample_json_def str_def)

lemma cleanedText_unclosed: "cleanedText unclosed_fence_raw = sample_json"
  by (simp add: cleanedText_def unclosed_fence_raw_def trim_def is_ws_def str_def
        startsWith_def slice_from_to_end_minus_def sample_json_def)

lemma stripFence_spec_unclosed: "stripFence_spec unclosed_fence_raw = unclosed_fence_raw"
  by (simp add: stripFence_spec_def unclosed_fence_raw_def trim_def is_ws_def str_def
        startsWith_def endsWith_def sample_json_def)

lemma parseQuestions_sample:
  "cleanedText raw = sample_json \<Longrightarrow> parseQuestions (sample_env raw') raw = Some sample_parsed"
  by (simp add: parseQuestions_def sample_env_def sample_parsed_def)

lemma gather_topic:
  "gatherContext env st topic_request fileId =
     (Inr \<lparr>contextText = topic_context,
           ctx_sourceType = SrcText, ctx_sourceFilename = None, ctx_sourceFileId = None\<rparr>,
      st, [])"
  by (simp add: gatherContext_def topic_request_def topicContext_def topicGiven_def
        topic_context_def)
     (simp add: trim_def is_ws_def str_def sample_pdf_text_def)

lemma topic_request_valid:
  "falsy (body_title topic_request) = False"
  "topicBlank (body_topic topic_request) = False"
  by (simp_all add: topic_request_def falsy_def topicBlank_def)
     (simp_all add: trim_def is_ws_def str_def sample_pdf_text_def)

lemma topic_context_long: "50 \<le> length (trim topic_context)"
  by (simp add: topic_context_def trim_def is_ws_def str_def sample_pdf_text_def)

lemma topic_context_short: "substring0 24000 topic_context = topic_context"
  by (simp add: topic_context_def substring0_def str_def sample_pdf_text_def)

lemma sample_generate_topic:
  assumes "cleanedText raw = sample_json"
  shows "generateQuizController (sample_env raw) empty_store topic_request
           sample_file_id sample_quiz_id =
         (Payload 201 \<lparr>gp_message = ''Quiz generated and saved successfully!'',
                       gp_quizId = sample_quiz_id, gp_data = sample_quiz\<rparr>,
          quiz_store,
          [LlmCall topic_context (str ''1''), QuizSave])"
proof -
  have l: "\<not> length (trim topic_context) < 50"
    using topic_context_long by simp
  have n: "numQuestionsOf topic_request = str ''1''"
    by (simp add: numQuestionsOf_def topic_request_def)
  have q: "newQuiz (sample_env raw) sample_quiz_id topic_request
             \<lparr>contextText = topic_context,
              ctx_sourceType = SrcText, ctx_sourceFilename = None,
              ctx_sourceFileId = None\<rparr> sample_parsed = Inr sample_quiz"
    by (simp add: newQuiz_def sample_env_fields topic_request_def quizTopic_def sample_quiz_def)
       (simp add: trim_def is_ws_def str_def sample_pdf_text_def)
  have vq: "validQuiz sample_quiz"
    by (simp add: validQuiz_def sample_quiz_def validQuestion_def sample_question_def str_def
          sample_pdf_text_def)
  show ?thesis
    using l
    by (simp add: generateQuizController_def topic_request_valid gather_topic
          generateFromContext_def topic_context_short n sample_env_fields
          parseQuestions_sample [OF assms] persistQuiz_def q saveQuiz_def vq)
       (simp add: empty_store_def quiz_store_def sample_quiz_def)
qed

lemma gather_combined:
  "gatherContext (sample_env raw) empty_store combined_request sample_file_id =
     (Inr \<lparr>contextText = combined_context, ctx_sourceType = SrcCombined,
           ctx_sourceFilename = Some (str ''heaps.pdf''),
           ctx_sourceFileId = Some sample_file_id\<rparr>,
      empty_store\<lparr>files := [\<lparr>file_id = sample_file_id, filename = str ''heaps.pdf'',
                contentType = str ''application/pdf'', content = [0x25, 0x50, 0x44, 0x46]\<rparr>]\<rparr>,
      [GridFsUpload sample_file_id, PdfParse])"
  by (simp add: gatherContext_def combined_request_def getBucket_def uploadToGridFs_def
        empty_store_def sample_upload_def sample_env_fields withPdf_def topicContext_def
        topicGiven_def pdfSeparator_def combined_context_def)
     (simp add: trim_def is_ws_def str_def sample_pdf_text_def)

lemma length_trim_combined_context: "50 \<le> length (trim combined_context)"
  by (simp add: combined_context_def trim_def is_ws_def str_def sample_pdf_text_def)

lemma sample_generate_combined:
  "generateQuizController (sample_env sample_json) empty_store combined_request
       sample_file_id sample_quiz_id =
     (Payload 201 \<lparr>gp_message = ''Quiz generated and saved successfully!'',
                   gp_quizId = sample_quiz_id, gp_data = combined_quiz\<rparr>,
      combined_store,
      [GridFsUpload sample_file_id, PdfParse,
       LlmCall combined_context (str ''5''), QuizSave])"
proof -
  have v: "\<not> falsy (body_title combined_request)" "req_file combined_request \<noteq> None"
    by (simp_all add: combined_request_def falsy_def str_def)
  have l: "\<not> length (trim combined_context) < 50"
    using length_trim_combined_context by simp
  have s: "substring0 24000 combined_context = combined_context"
    by (simp add: substring0_def combined_context_def str_def sample_pdf_text_def)
  have n: "numQuestionsOf combined_request = str ''5''"
    by (simp add: numQuestionsOf_def combined_request_def)
  have t: "trim (str '' Heaps '') = str ''Heaps''"
    by (simp add: trim_def is_ws_def str_def)
  have q: "newQuiz (sample_env sample_json) sample_quiz_id combined_request
             \<lparr>contextText = combined_context, ctx_sourceType = SrcCombined,
              ctx_sourceFilename = Some (str ''heaps.pdf''),
              ctx_sourceFileId = Some sample_file_id\<rparr> sample_parsed = Inr combined_quiz"
    by (simp add: newQuiz_def sample_env_fields combined_request_def t quizTopic_def
          combined_quiz_def)
       (simp add: str_def)
  have vq: "validQuiz combined_quiz"
    by (simp add: validQuiz_def combined_quiz_def validQuestion_def sample_question_def str_def)
  show ?thesis
    using v l
    by (simp add: generateQuizController_def gather_combined generateFromContext_def s n
          sample_env_fields parseQuestions_sample cleanedText_sample_json persistQuiz_def q
          saveQuiz_def vq)
       (simp add: empty_store_def combined_store_def combined_quiz_def)
qed

lemma gather_blank_topic:
  "gatherContext (sample_env raw) empty_store blank_topic_request sample_file_id =
     (Inr \<lparr>contextText = sample_pdf_text, ctx_sourceType = SrcPdf,
           ctx_sourceFilename = Some (str ''heaps.pdf''),
           ctx_sourceFileId = Some sample_file_id\<rparr>,
      empty_store\<lparr>files := [\<lparr>file_id = sample_file_id, filename = str ''heaps.pdf'',
                contentType = str ''application/pdf'', content = [0x25, 0x50, 0x44, 0x46]\<rparr>]\<rparr>,
      [GridFsUpload sample_file_id, PdfParse])"
  by (simp add: gatherContext_def blank_topic_request_def getBucket_def uploadToGridFs_def
        empty_store_def sample_upload_def sample_env_fields withPdf_def topicContext_def
        topicGiven_def)
     (simp add: trim_def is_ws_def str_def sample_pdf_text_def)

lemma reachable_empty_store: "reachable empty_store"
proof -
  have "later initial_store (initial_store\<lparr>bucketInitialized := True\<rparr>)"
    by (rule later_connect) (rule later_refl)
  then show ?thesis
    by (simp add: reachable_def initial_store_def empty_store_def)
qed

lemma reachable_quiz_store: "reachable quiz_store"
  using reachable_empty_store
    later_generate [OF _ sample_generate_topic [OF cleanedText_sample_json], of initial_store]
  by (simp add: reachable_def)

lemma sample_submit_first:
  "submitQuizController (sample_env sample_json) quiz_store sample_quiz_id
      (JObj [(str ''answers'',
              JArr (map answerEntry [(q_id sample_question, str ''A tree'')]))])
      sample_result_id 1000
   = (Payload 200
       \<lparr>sp_message = ''Quiz submitted successfully!'',
        sp_resultId = sample_result_id,
        sp_score = 1,
        sp_totalQuestions = 1,
        sp_results =
          [\<lparr>questionId = q_id sample_question,
            d_questionText = questionText sample_question,
            submittedAnswer = JStr (str ''A tree''),
            d_correctAnswer = correctAnswer sample_question,
            isCorrect = Some True\<rparr>]\<rparr>,
      quiz_store\<lparr>results := [first_result]\<rparr>)"
proof -
  have b: "js_prop (JObj [(str ''answers'',
              JArr (map answerEntry [(q_id sample_question, str ''A tree'')]))])
             (str ''answers'')
           = Inr (JArr (map answerEntry [(q_id sample_question, str ''A tree'')]))"
    by simp
  have f: "sample_result_id \<notin> set (map r_id (results quiz_store))"
    by (simp add: results_quiz_store)
  show ?thesis
    using submit_entries [OF b cast_sample_quiz_id find_sample_quiz f, where now = 1000]
    by (simp add: expectedDetail_def expectedStoredDetail_def questions_sample_quiz
          results_quiz_store first_result_def sample_question_def str_def)
qed

lemma sample_submit_second:
  "submitQuizController (sample_env sample_json) (quiz_store\<lparr>results := [first_result]\<rparr>)
      sample_quiz_id (JObj [(str ''answers'', JArr (map answerEntry []))])
      second_result_id 2000
   = (Payload 200
       \<lparr>sp_message = ''Quiz submitted successfully!'',
        sp_resultId = second_result_id,
        sp_score = 0,
        sp_totalQuestions = 1,
        sp_results =
          [\<lparr>questionId = q_id sample_question,
            d_questionText = questionText sample_question,
            submittedAnswer = JStr (str ''No Answer''),
            d_correctAnswer = correctAnswer sample_question,
            isCorrect = None\<rparr>]\<rparr>,
      graded_store)"
proof -
  have b: "js_prop (JObj [(str ''answers'', JArr (map answerEntry []))]) (str ''answers'')
           = Inr (JArr (map answerEntry []))"
    by simp
  have q: "findById (quiz_store\<lparr>results := [first_result]\<rparr>) sample_quiz_id = Some sample_quiz"
    using find_sample_quiz by (simp add: findById_def)
  have f: "second_result_id \<notin> set (map r_id (results (quiz_store\<lparr>results := [first_result]\<rparr>)))"
    by (simp add: first_result_def second_result_id_def sample_result_id_def str_def)
  show ?thesis
    using submit_entries [OF b cast_sample_quiz_id q f, where now = 2000]
    by (simp add: expectedDetail_def expectedStoredDetail_def questions_sample_quiz
          graded_store_def second_result_def sample_question_def)
qed

lemma reachable_graded_store: "reachable graded_store"
proof -
  have "later initial_store (quiz_store\<lparr>results := [first_result]\<rparr>)"
    using reachable_quiz_store later_submit [OF _ sample_submit_first, of initial_store]
    by (simp add: reachable_def)
  from later_submit [OF this sample_submit_second] show ?thesis
    by (simp add: reachable_def)
qed

lemma find_graded_quiz: "findById graded_store sample_quiz_id = Some sample_quiz"
  using find_sample_quiz by (simp add: findById_def graded_store_def)

lemma findResults_graded:
  "findResults graded_store sample_quiz_id = [second_result, first_result]"
  by (simp add: findResults_def graded_store_def first_result_def second_result_def)

section \<open>Grading a submission\<close>

text \<open>
  C1, as stated, fails: with two entries for one question, the wrong answer before the
  right one, the list does contain an entry with the question's id and the correct
  answer, yet the question is graded as incorrect and the score is 0, because \<open>find\<close>
  returns the first entry with the id.
\<close>

theorem submit_duplicate_answers_counterexample:
  "fst (submitQuizController (sample_env sample_json) quiz_store sample_quiz_id
          (JObj [(str ''answers'', JArr (map answerEntry duplicate_answers))])
          sample_result_id 1000)
   = Payload 200
       \<lparr>sp_message = ''Quiz submitted successfully!'',
        sp_resultId = sample_result_id,
        sp_score = 0,
        sp_totalQuestions = 1,
        sp_results =
          [\<lparr>questionId = q_id sample_question,
            d_questionText = questionText sample_question,
            submittedAnswer = JStr (str ''A list''),
            d_correctAnswer = correctAnswer sample_question,
            isCorrect = Some False\<rparr>]\<rparr>
   \<and> (q_id sample_question, correctAnswer sample_question) \<in> set duplicate_answers"
  by (simp add: submitQuizController_def cast_sample_quiz_id find_sample_quiz
        results_quiz_store questions_sample_quiz
        findAnswer_def gradeQuestion_def answerEntry_def duplicate_answers_def
        sample_question_def newResult_def castDetail_def castSubmitted_def
        saveResult_def str_def)

text \<open>
  C1, amended: for an existing quiz and an \<open>answers\<close> array of entries with string
  fields, submit answers 200 and grades the questions in the quiz's stored order; the
  entry of a question is decided by the first element of the array with the question's
  id: the question is correct iff that element's answer equals the stored
  \<open>correctAnswer\<close> exactly; a question with no such element gets \<open>No Answer\<close> and is
  not counted. The score, in the response and in the stored document, is the number of
  correct questions, and \<open>totalQuestions\<close> is the number of questions of the quiz,
  however many answers were submitted.
\<close>

theorem submit_grades_first_matching_answer:
  assumes "js_prop body (str ''answers'') = Inr (JArr (map answerEntry as))"
    and "castObjectId env quizId = Some oid"
    and "findById st oid = Some quiz"
    and "resultId \<notin> set (map r_id (results st))"
  shows "submitQuizController env st quizId body resultId now =
     (Payload 200
        \<lparr>sp_message = ''Quiz submitted successfully!'',
         sp_resultId = resultId,
         sp_score = length (filter (\<lambda>q. map_of as (q_id q) = Some (correctAnswer q))
                              (questions quiz)),
         sp_totalQuestions = length (questions quiz),
         sp_results = map (expectedDetail as) (questions quiz)\<rparr>,
      st\<lparr>results := results st @
        [\<lparr>r_id = resultId, r_quiz = oid,
          score = length (filter (\<lambda>q. map_of as (q_id q) = Some (correctAnswer q))
                            (questions quiz)),
          totalQuestions = length (questions quiz),
          submittedAnswers = map (expectedStoredDetail as) (questions quiz),
          createdAt = now\<rparr>]\<rparr>)"
  using assms by (rule submit_entries)

theorem submit_grades_first_matching_answer_witness:
  "submitQuizController (sample_env sample_json) quiz_store sample_quiz_id
          (JObj [(str ''answers'', JArr (map answerEntry [(q_id sample_question, str ''A tree'')]))])
          sample_result_id 1000
   = (Payload 200
       \<lparr>sp_message = ''Quiz submitted successfully!'',
        sp_resultId = sample_result_id,
        sp_score = 1,
        sp_totalQuestions = 1,
        sp_results =
          [\<lparr>questionId = q_id sample_question,
            d_questionText = questionText sample_question,
            submittedAnswer = JStr (str ''A tree''),
            d_correctAnswer = correctAnswer sample_question,
            isCorrect = Some True\<rparr>]\<rparr>,
      quiz_store\<lparr>results :=
        [\<lparr>r_id = sample_result_id, r_quiz = sample_quiz_id, score = 1, totalQuestions = 1,
          submittedAnswers =
            [\<lparr>questionId = q_id sample_question,
              d_questionText = questionText sample_question,
              submittedAnswer = Some (str ''A tree''),
              d_correctAnswer = correctAnswer sample_question,
              isCorrect = Some True\<rparr>],
          createdAt = 1000\<rparr>]\<rparr>)"
proof -
  have b: "js_prop (JObj [(str ''answers'', JArr (map answerEntry [(q_id sample_question, str ''A tree'')]))])
             (str ''answers'') = Inr (JArr (map answerEntry [(q_id sample_question, str ''A tree'')]))"
    by simp
  have f: "sample_result_id \<notin> set (map r_id (results quiz_store))"
    by (simp add: results_quiz_store)
  show ?thesis
    using submit_grades_first_matching_answer
      [OF b cast_sample_quiz_id find_sample_quiz f, where now = 1000]
    by (simp add: expectedDetail_def expectedStoredDetail_def questions_sample_quiz
          results_quiz_store sample_question_def str_def)
qed

section \<open>Validation of the generate request\<close>

text \<open>
  C2: generate answers 400 and calls nothing outside (no upload, no PDF parse, no model
  call, no save; the store is unchanged) whenever the title is absent or empty, and
  whenever there is neither a file nor a topic that is non-blank after trimming,
  whatever the other fields, the environment and the store are.
\<close>

theorem generate_rejects_missing_input:
  assumes "falsy (body_title req) \<or> (req_file req = None \<and> topicBlank (body_topic req))"
  shows "generateQuizController env st req fileId quizId =
          (Message 400
             (if falsy (body_title req) then ''A quiz title is required.''
              else ''Please provide either a topic or a PDF file to generate the quiz.''),
           st, [])"
  using assms by (auto simp: generateQuizController_def)

theorem generate_rejects_missing_input_witness:
  "generateQuizController (sample_env sample_json) empty_store
     \<lparr>body_title = Some (str ''Heaps''), body_numQuestions = Some (str ''3''),
      body_topic = Some (str ''   ''), req_file = None\<rparr> [] []
   = (Message 400 ''Please provide either a topic or a PDF file to generate the quiz.'',
      empty_store, [])
   \<and> generateQuizController (sample_env sample_json) empty_store
     \<lparr>body_title = Some [], body_numQuestions = None,
      body_topic = Some sample_pdf_text, req_file = None\<rparr> [] []
   = (Message 400 ''A quiz title is required.'', empty_store, [])"
  using generate_rejects_missing_input [of
     "\<lparr>body_title = Some (str ''Heaps''), body_numQuestions = Some (str ''3''),
      body_topic = Some (str ''   ''), req_file = None\<rparr>"
     "sample_env sample_json" empty_store "[]" "[]"]
    generate_rejects_missing_input [of
     "\<lparr>body_title = Some [], body_numQuestions = None,
      body_topic = Some sample_pdf_text, req_file = None\<rparr>"
     "sample_env sample_json" empty_store "[]" "[]"]
  by (simp add: falsy_def topicBlank_def trim_def is_ws_def str_def)

section \<open>Insufficient context\<close>

text \<open>
  C3: when a request passes validation and the context gathered from the topic and the
  PDF has fewer than 50 code units after trimming, generate answers 400 with the
  insufficient-text message; the model is not called, nothing is saved, and the quiz
  collection is as before.
\<close>

theorem generate_insufficient_context:
  assumes "\<not> falsy (body_title req)"
    and "\<not> (req_file req = None \<and> topicBlank (body_topic req))"
    and "gatherContext env st req fileId = (Inr c, st1, ev)"
    and "length (trim (contextText c)) < 50"
  shows "generateQuizController env st req fileId quizId =
           (Message 400
              ''Could not find sufficient text from the provided sources to generate a quiz.'',
            st1, ev)
         \<and> (\<forall>ctx n. LlmCall ctx n \<notin> set ev) \<and> QuizSave \<notin> set ev
         \<and> quizzes st1 = quizzes st"
  using assms gatherContext_events [OF assms(3)]
  by (auto simp: generateQuizController_def generateFromContext_def)

theorem generate_insufficient_context_witness:
  "generateQuizController (sample_env sample_json) empty_store short_topic_request [] []
     = (Message 400
          ''Could not find sufficient text from the provided sources to generate a quiz.'',
        empty_store, [])"
proof -
  have v1: "\<not> falsy (body_title short_topic_request)"
    by (simp add: short_topic_request_def falsy_def str_def)
  have v2: "\<not> (req_file short_topic_request = None \<and> topicBlank (body_topic short_topic_request))"
    by (simp add: short_topic_request_def topicBlank_def trim_def is_ws_def str_def)
  have g: "gatherContext (sample_env sample_json) empty_store short_topic_request [] =
             (Inr (topicContext short_topic_request), empty_store, [])"
    by (simp add: gatherContext_def short_topic_request_def)
  have l: "length (trim (contextText (topicContext short_topic_request))) < 50"
    by (simp add: topicContext_def short_topic_request_def topicGiven_def trim_def is_ws_def str_def)
  show ?thesis
    using generate_insufficient_context [OF v1 v2 g l] by simp
qed

section \<open>Provenance of a generated quiz\<close>

text \<open>
  C4: a call of generate either leaves the quiz collection as it is or appends one quiz,
  the one it returns with status 201. That quiz satisfies the provenance invariant, and
  its source type is \<open>text\<close> for a call without a file (then no file id is stored),
  \<open>combined\<close> for a call with a file and a topic that is non-blank after trimming, and
  \<open>pdf\<close> for a call with a file and no such topic; the file id and the file name are
  those of the upload.
\<close>

theorem generate_provenance:
  assumes "generateQuizController env st req fileId quizId = (r, st', ev)"
  shows "quizzes st' = quizzes st
         \<or> (\<exists>q. quizzes st' = quizzes st @ [q]
               \<and> r = Payload 201 \<lparr>gp_message = ''Quiz generated and saved successfully!'',
                                  gp_quizId = quizId, gp_data = q\<rparr>
               \<and> provenance q
               \<and> sourceType q =
                   (if req_file req = None then SrcText
                    else if topicGiven (body_topic req) then SrcCombined else SrcPdf)
               \<and> sourceFileId q = (if req_file req = None then None else Some fileId)
               \<and> sourceFilename q = map_option originalname (req_file req))"
proof (cases r)
  case (Message code msg)
  with assms have "quizzes st' = quizzes st"
    unfolding generateQuizController_def generateFromContext_def persistQuiz_def
      generateServerError_def Let_def
    by (auto split: if_splits sum.splits option.splits prod.splits
             dest: gatherContext_events)
  then show ?thesis by simp
next
  case (Payload code p)
  from assms [unfolded Payload] obtain c st1 ev0 raw parsed q where
    v: "\<not> (req_file req = None \<and> topicBlank (body_topic req))"
    and g: "gatherContext env st req fileId = (Inr c, st1, ev0)"
    and n: "newQuiz env quizId req c parsed = Inr q"
    and s: "saveQuiz st1 q = Inr st'"
    and code: "code = 201"
    and p: "p = \<lparr>gp_message = ''Quiz generated and saved successfully!'',
                 gp_quizId = quiz_id q, gp_data = q\<rparr>"
    by (rule generate_success)
  from gatherContext_events [OF g] have q1: "quizzes st1 = quizzes st" by simp
  from saveQuiz_success [OF s] q1 have q2: "quizzes st' = quizzes st @ [q]" by simp
  note nf = newQuiz_fields [OF n]
  have fields: "sourceType q =
                   (if req_file req = None then SrcText
                    else if topicGiven (body_topic req) then SrcCombined else SrcPdf)
               \<and> sourceFileId q = (if req_file req = None then None else Some fileId)
               \<and> sourceFilename q = map_option originalname (req_file req)"
  proof (cases "req_file req")
    case None
    with g have "c = topicContext req" by (simp add: gatherContext_no_file)
    with None v nf show ?thesis
      by (simp add: topicContext_fields topicGiven_iff)
  next
    case (Some f)
    from g Some obtain pdfText where "c = withPdf (topicContext req) fileId f pdfText"
      by (rule gatherContext_file)
    with Some nf show ?thesis
      by (simp add: withPdf_def topicContext_fields)
  qed
  then have "provenance q"
    by (auto simp: provenance_def split: if_splits)
  with fields q2 p code Payload nf show ?thesis by auto
qed

theorem generate_provenance_witness:
  "generateQuizController (sample_env sample_json) empty_store combined_request
       sample_file_id sample_quiz_id =
     (Payload 201 \<lparr>gp_message = ''Quiz generated and saved successfully!'',
                   gp_quizId = sample_quiz_id, gp_data = combined_quiz\<rparr>,
      combined_store,
      [GridFsUpload sample_file_id, PdfParse,
       LlmCall combined_context (str ''5''), QuizSave])
   \<and> quizzes combined_store = quizzes empty_store @ [combined_quiz]
   \<and> provenance combined_quiz
   \<and> sourceType combined_quiz = SrcCombined
   \<and> sourceFileId combined_quiz = Some sample_file_id
   \<and> sourceFilename combined_quiz = Some (str ''heaps.pdf'')"
proof -
  have t: "topicGiven (body_topic combined_request)" "req_file combined_request = Some sample_upload"
    by (simp_all add: combined_request_def topicGiven_def trim_def is_ws_def str_def)
  have n: "quizzes combined_store \<noteq> quizzes empty_store"
    by (simp add: combined_store_def empty_store_def)
  from generate_provenance [OF sample_generate_combined] n t
  show ?thesis
    by (auto simp: sample_generate_combined sample_upload_def)
qed

section \<open>A malformed answer of the model\<close>

text \<open>
  C5, as stated, fails: the answer \<open>```json[...]EOF\<close> opens with a fence and has no
  closing fence, so there is no wrapper to strip and the text does not parse; yet
  generate cuts the last three code units off with the opening fence, parses the array
  that remains and answers 201.
\<close>

theorem generate_unclosed_fence_counterexample:
  "fst (generateQuizController (sample_env unclosed_fence_raw) empty_store topic_request
          sample_file_id sample_quiz_id)
     = Payload 201 \<lparr>gp_message = ''Quiz generated and saved successfully!'',
                     gp_quizId = sample_quiz_id, gp_data = sample_quiz\<rparr>
   \<and> cleanedText unclosed_fence_raw = sample_json
   \<and> stripFence_spec unclosed_fence_raw = unclosed_fence_raw
   \<and> json_parse (sample_env unclosed_fence_raw) (stripFence_spec unclosed_fence_raw) = None"
proof -
  have n: "json_parse (sample_env unclosed_fence_raw) unclosed_fence_raw = None"
    by (simp add: sample_env_def unclosed_fence_raw_def sample_json_def str_def)
  show ?thesis
    using n
    by (simp add: sample_generate_topic [OF cleanedText_unclosed] stripFence_spec_unclosed
          cleanedText_unclosed)
qed

text \<open>
  C5, amended: for every answer of the model, generate trims it and, when the trimmed
  text opens with \<open>```json\<close> (or else with \<open>```\<close>), removes the opening fence and the
  last three code units, whatever they are; this strips the wrapper exactly when the
  text also closes with \<open>```\<close>. It parses what remains as JSON; when that fails or the
  value is not a non-empty array, generate answers 500 with a fixed message that holds
  nothing of the model's text, after the model call and without a save.
\<close>

theorem generate_malformed_ai_response:
  assumes "\<not> falsy (body_title req)"
    and "\<not> (req_file req = None \<and> topicBlank (body_topic req))"
    and "gatherContext env st req fileId = (Inr c, st1, ev)"
    and "50 \<le> length (trim (contextText c))"
    and "llm env (substring0 24000 (contextText c)) (numQuestionsOf req) = Some raw"
    and "\<forall>x xs. json_parse env (cleanedText raw) \<noteq> Some (JArr (x # xs))"
  shows "generateQuizController env st req fileId quizId =
           (Message 500 ''Failed to parse AI response. The format was invalid.'', st1,
            ev @ [LlmCall (substring0 24000 (contextText c)) (numQuestionsOf req)])
         \<and> quizzes st1 = quizzes st
         \<and> cleanedText raw =
             (if startsWith (trim raw) (str ''```json'')
              then take (length (trim raw) - 10) (drop 7 (trim raw))
              else if startsWith (trim raw) (str ''```'')
              then take (length (trim raw) - 6) (drop 3 (trim raw))
              else trim raw)
         \<and> (\<forall>mid. trim raw = str ''```json'' @ mid @ str ''```'' \<longrightarrow> cleanedText raw = mid)
         \<and> (\<forall>mid. trim raw = str ''```'' @ mid @ str ''```'' \<and> \<not> startsWith mid (str ''json'')
               \<longrightarrow> cleanedText raw = mid)"
proof -
  have p: "parseQuestions env raw = None"
    using assms(6)
    by (auto simp: parseQuestions_def split: option.splits jsval.splits list.splits)
  have "generateQuizController env st req fileId quizId =
           (Message 500 ''Failed to parse AI response. The format was invalid.'', st1,
            ev @ [LlmCall (substring0 24000 (contextText c)) (numQuestionsOf req)])"
    using assms(1-5) p
    by (simp add: generateQuizController_def generateFromContext_def)
  moreover have "quizzes st1 = quizzes st"
    using gatherContext_events [OF assms(3)] by simp
  moreover have "cleanedText raw =
             (if startsWith (trim raw) (str ''```json'')
              then take (length (trim raw) - 10) (drop 7 (trim raw))
              else if startsWith (trim raw) (str ''```'')
              then take (length (trim raw) - 6) (drop 3 (trim raw))
              else trim raw)"
    by (simp add: cleanedText_def slice_from_to_end_minus_def Let_def)
  ultimately show ?thesis
    using cleanedText_json_fence cleanedText_plain_fence by blast
qed

theorem generate_malformed_ai_response_witness:
  "generateQuizController (sample_env malformed_raw) empty_store topic_request
       sample_file_id sample_quiz_id =
     (Message 500 ''Failed to parse AI response. The format was invalid.'', empty_store,
      [LlmCall topic_context (str ''1'')])
   \<and> cleanedText malformed_raw = malformed_raw"
proof -
  have v1: "\<not> falsy (body_title topic_request)"
    and v2: "\<not> (req_file topic_request = None \<and> topicBlank (body_topic topic_request))"
    by (simp_all add: topic_request_valid)
  have l: "50 \<le> length (trim (contextText
             \<lparr>contextText = topic_context, ctx_sourceType = SrcText,
              ctx_sourceFilename = None, ctx_sourceFileId = None\<rparr>))"
    by (simp add: topic_context_long)
  have m: "llm (sample_env malformed_raw)
             (substring0 24000 (contextText
               \<lparr>contextText = topic_context, ctx_sourceType = SrcText,
                ctx_sourceFilename = None, ctx_sourceFileId = None\<rparr>))
             (numQuestionsOf topic_request) = Some malformed_raw"
    by (simp add: sample_env_fields)
  have c: "cleanedText malformed_raw = malformed_raw"
    by (simp add: cleanedText_def malformed_raw_def trim_def is_ws_def str_def startsWith_def)
  have b: "\<forall>x xs. json_parse (sample_env malformed_raw) (cleanedText malformed_raw)
             \<noteq> Some (JArr (x # xs))"
    by (simp add: c sample_env_def) (simp add: malformed_raw_def sample_json_def str_def)
  have n: "numQuestionsOf topic_request = str ''1''"
    by (simp add: numQuestionsOf_def topic_request_def)
  from generate_malformed_ai_response [OF v1 v2 gather_topic l m b]
  show ?thesis
    by (simp add: topic_context_short n c)
qed

section \<open>The quiz for taking\<close>



section \<open>The stored PDF\<close>

text \<open>
  What holds of the round trip: after a generate call with a file has answered 201, and
  after any further requests, asking for the PDF under the returned quiz id answers 200
  with exactly the bytes that were uploaded and a \<open>Content-Disposition\<close> header that
  carries the original file name, provided that \<open>setHeader\<close> accepts the file name and
  the encoded title.
\<close>

lemma validHeaderValue_contentDisposition:
  "validHeaderValue (contentDisposition (Some n)) = validHeaderValue n"
  by (simp add: validHeaderValue_def contentDisposition_def str_def)

lemma pdf_round_trip_header_safe:
  assumes "generateQuizController env st req fileId quizId = (Payload code p, st', ev)"
    and "req_file req = Some f"
    and "later st' st''"
    and "castObjectId env' rid = Some (gp_quizId p)"
    and "validHeaderValue (originalname f)"
    and "validHeaderValue (encodeURIComponent env' (title (gp_data p)))"
  shows "getQuizPdfController env' st'' rid =
           Payload 200
             \<lparr>hdr_contentType = str ''application/pdf'',
              hdr_contentDisposition = str ''inline; filename='' @ [34] @ originalname f @ [34],
              hdr_xQuizTitle = encodeURIComponent env' (title (gp_data p)),
              pdf_body = buffer f\<rparr>"
proof -
  from assms(1) obtain c st1 ev0 raw parsed q where
    g: "gatherContext env st req fileId = (Inr c, st1, ev0)"
    and n: "newQuiz env quizId req c parsed = Inr q"
    and s: "saveQuiz st1 q = Inr st'"
    and p: "p = \<lparr>gp_message = ''Quiz generated and saved successfully!'',
                 gp_quizId = quiz_id q, gp_data = q\<rparr>"
    by (rule generate_success)
  from g assms(2) obtain pdfText where
    b: "bucketInitialized st"
    and fresh: "fileId \<notin> set (map file_id (files st))"
    and st1: "st1 = st\<lparr>files := files st @
        [\<lparr>file_id = fileId, filename = originalname f,
          contentType = mimetype f, content = buffer f\<rparr>]\<rparr>"
    and c: "c = withPdf (topicContext req) fileId f pdfText"
    by (rule gatherContext_file)
  note sv = saveQuiz_success [OF s]
  note nf = newQuiz_fields [OF n]
  have st': "st' = st1\<lparr>quizzes := quizzes st1 @ [q]\<rparr>" using sv by simp
  from later_extends [OF assms(3)] obtain fs qs where
    b'': "bucketInitialized st' \<longrightarrow> bucketInitialized st''"
    and f'': "files st'' = files st' @ fs" and q'': "quizzes st'' = quizzes st' @ qs"
    by blast
  have "\<forall>x \<in> set (quizzes st1). \<not> quiz_id x = quiz_id q"
    using sv by (intro not_in_map) simp
  then have "find (\<lambda>x. quiz_id x = quiz_id q) (quizzes st') = Some q"
    using find_snoc_fresh [of "quizzes st1" "\<lambda>x. quiz_id x = quiz_id q" q]
    by (simp add: st')
  then have fq: "findById st'' (quiz_id q) = Some q"
    by (simp add: findById_def q'' find_append_Some)
  have "\<forall>x \<in> set (files st). \<not> file_id x = fileId"
    using fresh by (rule not_in_map)
  then have "find (\<lambda>x. file_id x = fileId) (files st') =
              Some \<lparr>file_id = fileId, filename = originalname f,
                    contentType = mimetype f, content = buffer f\<rparr>"
    using find_snoc_fresh [of "files st" "\<lambda>x. file_id x = fileId"
        "\<lparr>file_id = fileId, filename = originalname f,
          contentType = mimetype f, content = buffer f\<rparr>"]
    by (simp add: st' st1)
  then have ff: "openDownloadStream st'' fileId =
              Some \<lparr>file_id = fileId, filename = originalname f,
                    contentType = mimetype f, content = buffer f\<rparr>"
    by (simp add: openDownloadStream_def f'' find_append_Some)
  have src: "sourceFileId q = Some fileId" "sourceFilename q = Some (originalname f)"
    using nf c by (simp_all add: withPdf_def)
  have bk: "getBucket st'' = Inr ()"
    using b b'' by (simp add: getBucket_def st' st1)
  have h1: "setHeader (contentDisposition (Some (originalname f))) = Inr ()"
    using assms(5) by (simp add: setHeader_def validHeaderValue_contentDisposition)
  have h2: "setHeader (encodeURIComponent env' (title q)) = Inr ()"
    using assms(6) by (simp add: setHeader_def p)
  show ?thesis
    using assms(4) fq ff src bk h1 h2
    by (simp add: getQuizPdfController_def p) (simp add: contentDisposition_def)
qed

text \<open>
  C7 fails on the code: a PDF uploaded under a name with a code unit above \<open>0xff\<close>
  (here the character U+4E2D) is stored and the quiz is created with status 201, but
  asking for the PDF of that quiz answers 500: the file name goes into the
  \<open>Content-Disposition\<close> header as it is, \<open>setHeader\<close> throws, and neither the bytes
  nor the name come back. The title, in the header beside it, is encoded first.
\<close>

lemma gather_unicode:
  "gatherContext (sample_env raw) empty_store unicode_name_request sample_file_id =
     (Inr \<lparr>contextText = sample_pdf_text, ctx_sourceType = SrcPdf,
           ctx_sourceFilename = Some unicode_name,
           ctx_sourceFileId = Some sample_file_id\<rparr>,
      empty_store\<lparr>files := [\<lparr>file_id = sample_file_id, filename = unicode_name,
                contentType = str ''application/pdf'', content = [0x25, 0x50, 0x44, 0x46]\<rparr>]\<rparr>,
      [GridFsUpload sample_file_id, PdfParse])"
  by (simp add: gatherContext_def unicode_name_request_def getBucket_def uploadToGridFs_def
        empty_store_def unicode_upload_def sample_env_fields withPdf_def topicContext_def
        str_def sample_pdf_text_def)

lemma sample_generate_unicode:
  "generateQuizController (sample_env sample_json) empty_store unicode_name_request
       sample_file_id sample_quiz_id =
     (Payload 201 \<lparr>gp_message = ''Quiz generated and saved successfully!'',
                   gp_quizId = sample_quiz_id, gp_data = unicode_quiz\<rparr>,
      unicode_store,
      [GridFsUpload sample_file_id, PdfParse,
       LlmCall sample_pdf_text (str ''5''), QuizSave])"
proof -
  have v: "falsy (body_title unicode_name_request) = False"
    "req_file unicode_name_request \<noteq> None"
    by (simp_all add: unicode_name_request_def falsy_def str_def)
  have l: "\<not> length (trim sample_pdf_text) < 50"
    by (simp add: trim_def is_ws_def str_def sample_pdf_text_def)
  have s: "substring0 24000 sample_pdf_text = sample_pdf_text"
    by (simp add: substring0_def str_def sample_pdf_text_def)
  have n: "numQuestionsOf unicode_name_request = str ''5''"
    by (simp add: numQuestionsOf_def unicode_name_request_def)
  have q: "newQuiz (sample_env sample_json) sample_quiz_id unicode_name_request
             \<lparr>contextText = sample_pdf_text, ctx_sourceType = SrcPdf,
              ctx_sourceFilename = Some unicode_name,
              ctx_sourceFileId = Some sample_file_id\<rparr> sample_parsed = Inr unicode_quiz"
    by (simp add: newQuiz_def sample_env_fields unicode_name_request_def quizTopic_def
          unicode_quiz_def)
       (simp add: trim_def is_ws_def str_def)
  have vq: "validQuiz unicode_quiz"
    by (simp add: validQuiz_def unicode_quiz_def validQuestion_def sample_question_def str_def)
  show ?thesis
    using v(2) l
    by (simp add: generateQuizController_def v(1) gather_unicode generateFromContext_def s n
          sample_env_fields parseQuestions_sample cleanedText_sample_json persistQuiz_def q
          saveQuiz_def vq)
       (simp add: empty_store_def unicode_store_def unicode_quiz_def)
qed

theorem pdf_under_unicode_name_answers_500:
  "generateQuizController (sample_env sample_json) empty_store unicode_name_request
       sample_file_id sample_quiz_id =
     (Payload 201 \<lparr>gp_message = ''Quiz generated and saved successfully!'',
                   gp_quizId = sample_quiz_id, gp_data = unicode_quiz\<rparr>,
      unicode_store,
      [GridFsUpload sample_file_id, PdfParse,
       LlmCall sample_pdf_text (str ''5''), QuizSave])
   \<and> sourceFilename unicode_quiz = Some (originalname unicode_upload)
   \<and> getQuizPdfController (sample_env sample_json) unicode_store sample_quiz_id =
       Message 500 ''An error occurred on the server.''"
proof -
  have f: "findById unicode_store sample_quiz_id = Some unicode_quiz"
    by (simp add: findById_def unicode_store_def unicode_quiz_def)
  have i: "sourceFileId unicode_quiz = Some sample_file_id"
    "sourceFilename unicode_quiz = Some unicode_name"
    by (simp_all add: unicode_quiz_def)
  have b: "getBucket unicode_store = Inr ()"
    by (simp add: getBucket_def unicode_store_def)
  have h: "setHeader (contentDisposition (Some unicode_name)) = Inl InvalidHeaderChar"
    by (simp add: setHeader_def validHeaderValue_contentDisposition)
       (simp add: validHeaderValue_def unicode_name_def)
  have "getQuizPdfController (sample_env sample_json) unicode_store sample_quiz_id =
       Message 500 ''An error occurred on the server.''"
    by (simp add: getQuizPdfController_def cast_sample_quiz_id f i b h)
  then show ?thesis
    by (simp add: sample_generate_unicode i unicode_upload_def)
qed

section \<open>The stored topic\<close>

text \<open>
  C8 fails on the code: for a request with a file and a topic of three spaces, the
  topic contributes nothing to the context and the source type is \<open>pdf\<close>, yet the
  stored topic is the three spaces and not the description \<open>Content from heaps.pdf\<close>.
  (\<open>generated_topic\<close> above gives the rule the code follows: the fallback is taken
  only for a topic that is absent or empty; the stored topic is never empty.)
\<close>

theorem generate_blank_topic_is_stored:
  "fst (generateQuizController (sample_env sample_json) empty_store blank_topic_request
          sample_file_id sample_quiz_id)
     = Payload 201
         \<lparr>gp_message = ''Quiz generated and saved successfully!'',
          gp_quizId = sample_quiz_id,
          gp_data =
            \<lparr>quiz_id = sample_quiz_id, title = str ''Heaps'', topic = str ''   '',
             sourceType = SrcPdf, sourceFilename = Some (str ''heaps.pdf''),
             sourceFileId = Some sample_file_id, questions = [sample_question]\<rparr>\<rparr>
   \<and> topicBlank (body_topic blank_topic_request)"
proof -
  have v: "falsy (body_title blank_topic_request) = False"
    "req_file blank_topic_request \<noteq> None"
    by (simp_all add: blank_topic_request_def falsy_def str_def)
  have l: "\<not> length (trim sample_pdf_text) < 50"
    by (simp add: trim_def is_ws_def str_def sample_pdf_text_def)
  have s: "substring0 24000 sample_pdf_text = sample_pdf_text"
    by (simp add: substring0_def str_def sample_pdf_text_def)
  have q: "newQuiz (sample_env sample_json) sample_quiz_id blank_topic_request
             \<lparr>contextText = sample_pdf_text, ctx_sourceType = SrcPdf,
              ctx_sourceFilename = Some (str ''heaps.pdf''),
              ctx_sourceFileId = Some sample_file_id\<rparr> sample_parsed =
           Inr \<lparr>quiz_id = sample_quiz_id, title = str ''Heaps'', topic = str ''   '',
             sourceType = SrcPdf, sourceFilename = Some (str ''heaps.pdf''),
             sourceFileId = Some sample_file_id, questions = [sample_question]\<rparr>"
    by (simp add: newQuiz_def sample_env_fields blank_topic_request_def quizTopic_def)
       (simp add: trim_def is_ws_def str_def)
  have vq: "validQuiz \<lparr>quiz_id = sample_quiz_id, title = str ''Heaps'', topic = str ''   '',
             sourceType = SrcPdf, sourceFilename = Some (str ''heaps.pdf''),
             sourceFileId = Some sample_file_id, questions = [sample_question]\<rparr>"
    by (simp add: validQuiz_def validQuestion_def sample_question_def str_def)
  have b: "topicBlank (body_topic blank_topic_request)"
    by (simp add: blank_topic_request_def topicBlank_def trim_def is_ws_def str_def)
  have "fst (generateQuizController (sample_env sample_json) empty_store blank_topic_request
          sample_file_id sample_quiz_id)
     = Payload 201
         \<lparr>gp_message = ''Quiz generated and saved successfully!'',
          gp_quizId = sample_quiz_id,
          gp_data =
            \<lparr>quiz_id = sample_quiz_id, title = str ''Heaps'', topic = str ''   '',
             sourceType = SrcPdf, sourceFilename = Some (str ''heaps.pdf''),
             sourceFileId = Some sample_file_id, questions = [sample_question]\<rparr>\<rparr>"
    using v(2) l
    by (simp add: generateQuizController_def v(1) gather_blank_topic generateFromContext_def s
          sample_env_fields parseQuestions_sample cleanedText_sample_json persistQuiz_def q
          saveQuiz_def vq)
       (simp add: empty_store_def)
  with b show ?thesis by simp
qed

section \<open>Earlier results in the quiz for taking\<close>

text \<open>
  C9: in every reachable store, for a quiz that has a stored result, getForTaking
  answers 200 with a payload that contains that result as it is stored; the result
  lists, question by question, the correct answers of the quiz, which the quiz part of
  the same payload leaves out.
\<close>

theorem getForTaking_results_reveal_correct_answers:
  assumes "reachable st"
    and "castObjectId env quizId = Some oid"
    and "findById st oid = Some quiz"
    and "x \<in> set (results st)"
    and "r_quiz x = oid"
  shows "\<exists>p. getQuizForTakingController env st quizId = Payload 200 p
           \<and> tp_quiz p = quizForStudent quiz
           \<and> x \<in> set (tp_results p)
           \<and> map questionId (submittedAnswers x) = map q_id (questions quiz)
           \<and> map d_correctAnswer (submittedAnswers x) = map correctAnswer (questions quiz)"
proof -
  from reachable_snapshots_ok [OF assms(1)] assms(4,5) obtain q where
    d: "distinct (map quiz_id (quizzes st))"
    and q: "q \<in> set (quizzes st)" "quiz_id q = oid"
    and m: "map d_correctAnswer (submittedAnswers x) = map correctAnswer (questions q)"
           "map questionId (submittedAnswers x) = map q_id (questions q)"
    by (auto simp: snapshots_ok_def)
  from findById_Some [OF assms(3)] q same_id_same_quiz [OF d] have "q = quiz"
    by blast
  with m assms(2-5) show ?thesis
    by (simp add: getQuizForTakingController_def findResults_def)
qed

theorem getForTaking_results_reveal_correct_answers_witness:
  "getQuizForTakingController (sample_env sample_json) graded_store sample_quiz_id =
     Payload 200
       \<lparr>tp_quiz = quizForStudent sample_quiz,
        tp_results = [second_result, first_result]\<rparr>
   \<and> map d_correctAnswer (submittedAnswers first_result) = [str ''A tree'']
   \<and> map correctAnswer (questions sample_quiz) = [str ''A tree'']"
proof -
  have m: "first_result \<in> set (results graded_store)"
    by (simp add: graded_store_def)
  have q: "r_quiz first_result = sample_quiz_id"
    by (simp add: first_result_def)
  have b: "map correctAnswer (questions sample_quiz) = [str ''A tree'']"
    by (simp add: sample_quiz_def sample_question_def)
  from getForTaking_results_reveal_correct_answers
    [OF reachable_graded_store cast_sample_quiz_id find_graded_quiz m q]
  obtain p where "getQuizForTakingController (sample_env sample_json) graded_store
      sample_quiz_id = Payload 200 p" and "tp_quiz p = quizForStudent sample_quiz"
    and a: "map d_correctAnswer (submittedAnswers first_result) =
            map correctAnswer (questions sample_quiz)"
    by blast
  moreover from this(1) have "tp_results p = [second_result, first_result]"
    by (auto simp: getQuizForTakingController_def cast_sample_quiz_id find_graded_quiz
          findResults_graded)
  ultimately show ?thesis
    using b by (cases p) simp
qed

section \<open>A submission without an array of answers\<close>

text \<open>
  C10: when the quiz exists and has a question, and \<open>req.body.answers\<close> is not an
  array (it is absent, or any other value, or \<open>req.body\<close> itself cannot be read),
  submit answers 500 and the store is unchanged: no result is saved.
\<close>

theorem submit_without_answers_array:
  assumes "castObjectId env quizId = Some oid"
    and "findById st oid = Some quiz"
    and "questions quiz \<noteq> []"
    and "\<forall>xs. js_prop body (str ''answers'') \<noteq> Inr (JArr xs)"
  shows "submitQuizController env st quizId body resultId now =
           (Message 500 ''An error occurred on the server while submitting the quiz.'', st)"
proof (cases "js_prop body (str ''answers'')")
  case (Inl e)
  then show ?thesis
    by (simp add: submitQuizController_def submitServerError_def)
next
  case (Inr userAnswers)
  with assms(4) have "\<forall>xs. userAnswers \<noteq> JArr xs" by auto
  from gradeAll_not_array [OF this assms(3)] Inr assms(1,2) show ?thesis
    by (simp add: submitQuizController_def submitServerError_def)
qed

theorem submit_without_answers_array_witness:
  "submitQuizController (sample_env sample_json) quiz_store sample_quiz_id
      (JObj [(str ''answer'', JStr (str ''A tree''))]) sample_result_id 1000
    = (Message 500 ''An error occurred on the server while submitting the quiz.'', quiz_store)
   \<and> submitQuizController (sample_env sample_json) quiz_store sample_quiz_id
      (JObj [(str ''answers'', JObj [(str ''0'', answerEntry (q_id sample_question, str ''A tree''))])])
      sample_result_id 1000
    = (Message 500 ''An error occurred on the server while submitting the quiz.'', quiz_store)"
proof -
  have q: "questions sample_quiz \<noteq> []" by (simp add: sample_quiz_def)
  have a1: "\<forall>xs. js_prop (JObj [(str ''answer'', JStr (str ''A tree''))]) (str ''answers'')
              \<noteq> Inr (JArr xs)"
    by (simp add: str_def)
  have a2: "\<forall>xs. js_prop (JObj [(str ''answers'',
                JObj [(str ''0'', answerEntry (q_id sample_question, str ''A tree''))])])
              (str ''answers'') \<noteq> Inr (JArr xs)"
    by simp
  show ?thesis
    using submit_without_answers_array [OF cast_sample_quiz_id find_sample_quiz q a1]
      submit_without_answers_array [OF cast_sample_quiz_id find_sample_quiz q a2]
    by simp
qed

end
